theory Spec2Isabelle
  imports Complex_Main "HOL-Library.Char_ord" "HOL-Library.List_Lexorder"
begin

section \<open>Compositional Tensor Factorization: the driver \<open>ctf_helper\<close>\<close>

text \<open>
  This theory embeds \<^verbatim>\<open>src/gemelli/ctf.py\<close> (the function \<^verbatim>\<open>ctf_helper\<close>) and the
  command \<^verbatim>\<open>phylogenetic-rclr\<close> of \<^verbatim>\<open>src/gemelli/scripts/_standalone_transforms.py\<close>.
  The libraries the driver calls (pandas, biom, skbio, click) are modelled by the small
  fragment of their behaviour that the driver uses; each such definition says which
  library call it stands for. The factorization itself (\<^verbatim>\<open>gemelli.preprocessing.build\<close>,
  \<^verbatim>\<open>gemelli.factorization.TensorFactorization\<close>) and the metadata validation of qiime2
  are parameters of the model.
\<close>

subsection \<open>Exceptions\<close>

datatype error =
    ValueError string
  | KeyError "string list"
  | TypeError string
  | AttributeError string
  | IndexError string
  | DistanceMatrixError string
  | UsageError string
  | ExternalError string

subsection \<open>Python sets\<close>

text \<open>
  A Python \<^verbatim>\<open>set\<close> is a list without repetitions. Python leaves the iteration order of a
  set open; the model iterates in the order of first occurrence.
\<close>

definition pyset :: "'a list \<Rightarrow> 'a list" where
  "pyset xs = remdups xs"

definition intersection :: "'a list \<Rightarrow> 'a list \<Rightarrow> 'a list" where
  "intersection a b = filter (\<lambda>x. x \<in> set b) a"

subsection \<open>Boolean-mask selection (numpy \<^verbatim>\<open>xs[mask]\<close>, pandas \<^verbatim>\<open>.loc[:, mask]\<close>)\<close>

definition select_mask :: "bool list \<Rightarrow> 'a list \<Rightarrow> 'a list" where
  "select_mask bools xs = map snd (filter fst (zip bools xs))"

subsection \<open>Data frames\<close>

datatype cell = NumV real | StrV string | BoolV bool | NaN

datatype dtype = BoolT | IntT | FloatT | ObjectT

record column =
  col_name :: string
  col_dtype :: dtype
  col_values :: "cell list"

record 'i frame =
  index_name :: "string option"
  index :: "'i list"
  columns :: "column list"

definition column_names :: "'i frame \<Rightarrow> string list" where
  "column_names f = map col_name (columns f)"

text \<open>\<^verbatim>\<open>df.drop(labels, axis=1)\<close>: every column carrying one of the labels goes; a label that
  names no column raises \<^verbatim>\<open>KeyError\<close>.\<close>

definition drop_columns :: "string list \<Rightarrow> 'i frame \<Rightarrow> error + 'i frame" where
  "drop_columns labels f =
     (case filter (\<lambda>l. l \<notin> set (column_names f)) labels of
        [] \<Rightarrow> Inr (f\<lparr>columns := filter (\<lambda>c. col_name c \<notin> set labels) (columns f)\<rparr>)
      | l # ls \<Rightarrow> Inl (KeyError (l # ls)))"

text \<open>\<^verbatim>\<open>df[labels]\<close> with a list of labels: the columns in the order of the labels; a label
  that names no column raises \<^verbatim>\<open>KeyError\<close>.\<close>

definition getitem_columns :: "string list \<Rightarrow> 'i frame \<Rightarrow> error + 'i frame" where
  "getitem_columns labels f =
     (case filter (\<lambda>l. l \<notin> set (column_names f)) labels of
        [] \<Rightarrow> Inr (f\<lparr>columns :=
                 concat (map (\<lambda>l. filter (\<lambda>c. col_name c = l) (columns f)) labels)\<rparr>)
      | l # ls \<Rightarrow> Inl (KeyError (l # ls)))"

text \<open>\<^verbatim>\<open>df.loc[:, mask]\<close> with a boolean mask over the columns.\<close>

definition loc_columns :: "bool list \<Rightarrow> 'i frame \<Rightarrow> 'i frame" where
  "loc_columns bools f = f\<lparr>columns := select_mask bools (columns f)\<rparr>"

text \<open>\<^verbatim>\<open>df.eq(s).any(axis=0)\<close>, for one column: some cell is the string \<open>s\<close>.\<close>

definition eq_any :: "string \<Rightarrow> column \<Rightarrow> bool" where
  "eq_any s c = list_ex (\<lambda>v. v = StrV s) (col_values c)"

fun position :: "'a \<Rightarrow> 'a list \<Rightarrow> nat option" where
  "position x [] = None"
| "position x (y # ys) = (if x = y then Some 0 else map_option Suc (position x ys))"

fun upcast :: "dtype \<Rightarrow> dtype" where
  "upcast BoolT = ObjectT"
| "upcast IntT = FloatT"
| "upcast d = d"

text \<open>\<^verbatim>\<open>df.reindex(labels)\<close>: one row per label, the row of the frame where the label is in
  its index and a row of missing values where it is not (a column that receives a missing
  value changes its dtype). pandas refuses to reindex a frame whose own index repeats a
  label, unless the new index is the old one.\<close>

definition lookup_cell :: "'i list \<Rightarrow> cell list \<Rightarrow> 'i \<Rightarrow> cell" where
  "lookup_cell labels vals i = (case position i labels of None \<Rightarrow> NaN | Some p \<Rightarrow> vals ! p)"

definition reindex_column :: "'i list \<Rightarrow> 'i list \<Rightarrow> column \<Rightarrow> column" where
  "reindex_column old new c =
     c\<lparr>col_dtype := (if list_all (\<lambda>i. i \<in> set old) new then col_dtype c else upcast (col_dtype c)),
       col_values := map (lookup_cell old (col_values c)) new\<rparr>"

definition reindex :: "'i list \<Rightarrow> 'i frame \<Rightarrow> error + 'i frame" where
  "reindex labels f =
     (if index f = labels then Inr f
      else if \<not> distinct (index f)
      then Inl (ValueError ''cannot reindex on an axis with duplicate labels'')
      else Inr (f\<lparr>index := labels, columns := map (reindex_column (index f) labels) (columns f)\<rparr>))"

subsection \<open>The count table (\<^verbatim>\<open>biom.Table\<close>)\<close>

text \<open>Rows are observations (features), columns are samples: \<open>matrix_data t ! i ! j\<close> is the
  count of observation \<open>i\<close> in sample \<open>j\<close>.\<close>

datatype axis = Sample | Observation

record biom_table =
  observation_ids :: "string list"
  sample_ids :: "string list"
  matrix_data :: "real list list"

definition ids :: "biom_table \<Rightarrow> axis \<Rightarrow> string list" where
  "ids t ax = (case ax of Sample \<Rightarrow> sample_ids t | Observation \<Rightarrow> observation_ids t)"

text \<open>\<^verbatim>\<open>table.sum(axis)\<close>: one total per sample, or one per observation.\<close>

definition table_sum :: "biom_table \<Rightarrow> axis \<Rightarrow> real list" where
  "table_sum t ax =
     (case ax of
        Sample \<Rightarrow> map (\<lambda>j. sum_list (map (\<lambda>row. row ! j) (matrix_data t)))
                      [0..<length (sample_ids t)]
      | Observation \<Rightarrow> map sum_list (matrix_data t))"

text \<open>\<^verbatim>\<open>table.filter(ids_to_keep, axis=axis, inplace=True)\<close>: the table keeps, in its own
  order, the samples (observations) whose id is among \<open>ids_to_keep\<close>. The driver only
  passes ids of the table itself. The result is the new state of the same object.\<close>

definition table_filter :: "string list \<Rightarrow> axis \<Rightarrow> biom_table \<Rightarrow> biom_table" where
  "table_filter ids_to_keep ax t =
     (let bools = map (\<lambda>i. i \<in> set ids_to_keep) (ids t ax) in
      case ax of
        Sample \<Rightarrow> t\<lparr>sample_ids := select_mask bools (sample_ids t),
                      matrix_data := map (select_mask bools) (matrix_data t)\<rparr>
      | Observation \<Rightarrow> t\<lparr>observation_ids := select_mask bools (observation_ids t),
                           matrix_data := select_mask bools (matrix_data t)\<rparr>)"

text \<open>\<^verbatim>\<open>DataFrame(table.matrix_data.toarray(), table.ids('observation'), table.ids('sample'))\<close>\<close>

definition table_to_dataframe :: "biom_table \<Rightarrow> string frame" where
  "table_to_dataframe t =
     \<lparr>index_name = None,
      index = ids t Observation,
      columns = map (\<lambda>j. \<lparr>col_name = ids t Sample ! j, col_dtype = FloatT,
                            col_values = map (\<lambda>row. NumV (row ! j)) (matrix_data t)\<rparr>)
                    [0..<length (ids t Sample)]\<rparr>"

subsection \<open>Metadata validation (lines 65--93)\<close>

text \<open>The metadata argument is a pandas \<^verbatim>\<open>DataFrame\<close> or a \<^verbatim>\<open>qiime2.Metadata\<close>; the latter
  yields its frame by \<^verbatim>\<open>to_dataframe()\<close>. The function \<open>q2\<close> stands for
  \<^verbatim>\<open>qiime2.Metadata(df).to_dataframe()\<close>, which validates a frame and may raise.\<close>

datatype metadata_arg = DataFrame "string frame" | Metadata "string frame"

fun to_dataframe :: "metadata_arg \<Rightarrow> string frame" where
  "to_dataframe (DataFrame df) = df"
| "to_dataframe (Metadata df) = df"

definition drop_bool_dtype :: "'i frame \<Rightarrow> 'i frame" where
  "drop_bool_dtype all_sample_metadata =
     (let drop_bool = map (\<lambda>c. col_dtype c = BoolT) (columns all_sample_metadata)
      in loc_columns (map Not drop_bool) all_sample_metadata)"

definition drop_bool_strings :: "'i frame \<Rightarrow> 'i frame" where
  "drop_bool_strings all_sample_metadata =
     (let drop_bool = map (\<lambda>c. eq_any ''True'' c \<noteq> eq_any ''False'' c)
                          (columns all_sample_metadata)
      in loc_columns (map Not drop_bool) all_sample_metadata)"

definition validate_sample_metadata ::
  "(string frame \<Rightarrow> error + string frame) \<Rightarrow> metadata_arg \<Rightarrow> string \<Rightarrow> string list
     \<Rightarrow> error + (string frame \<times> string frame)" where
  "validate_sample_metadata q2 sample_metadata individual_id_column state_columns =
     (let keep_cols = state_columns @ [individual_id_column] in
      case sample_metadata of
        DataFrame df \<Rightarrow>
          (case drop_columns keep_cols df of
             Inl e \<Rightarrow> Inl e
           | Inr all_sample_metadata \<Rightarrow>
              (case getitem_columns keep_cols df of
                 Inl e \<Rightarrow> Inl e
               | Inr sample_metadata1 \<Rightarrow>
                  (let all_sample_metadata1 = drop_bool_dtype all_sample_metadata;
                       all_sample_metadata2 = drop_bool_strings all_sample_metadata1
                   in case q2 sample_metadata1 of
                        Inl e \<Rightarrow> Inl e
                      | Inr sample_metadata2 \<Rightarrow> Inr (sample_metadata2, all_sample_metadata2))))
      | Metadata md \<Rightarrow>
          (let df = to_dataframe (Metadata md) in
           case drop_columns keep_cols df of
             Inl e \<Rightarrow> Inl e
           | Inr all_sample_metadata \<Rightarrow>
              (case getitem_columns keep_cols df of
                 Inl e \<Rightarrow> Inl e
               | Inr sample_metadata1 \<Rightarrow> Inr (sample_metadata1, all_sample_metadata))))"

definition validate_feature_metadata ::
  "(string frame \<Rightarrow> error + string frame) \<Rightarrow> metadata_arg option
     \<Rightarrow> error + string frame option" where
  "validate_feature_metadata q2 feature_metadata =
     (case feature_metadata of
        None \<Rightarrow> Inr None
      | Some (DataFrame df) \<Rightarrow> (case q2 df of Inl e \<Rightarrow> Inl e | Inr d \<Rightarrow> Inr (Some d))
      | Some (Metadata md) \<Rightarrow> Inr (Some (to_dataframe (Metadata md))))"

subsection \<open>Matching the table with the metadata (lines 94--121)\<close>

definition msg_dup_samples :: string where
  "msg_dup_samples = ''Data-table contains duplicate sample IDs''"

definition msg_dup_features :: string where
  "msg_dup_features = ''Data-table contains duplicate feature IDs''"

definition msg_no_features :: string where
  "msg_no_features =
     ''No more features left.  Check to make '' @ ''sure that the sample names between '' @
     ''`feature-metadata` and `table` are '' @ ''consistent''"

definition msg_no_samples :: string where
  "msg_no_samples =
     ''No more features left.  Check to make sure that '' @
     ''the sample names between `sample-metadata` and'' @ '' `table` are consistent''"

text \<open>The first component of the result is the state of the caller's table object when the
  stage ends, by return or by exception: the filters work in place.\<close>

definition match_data ::
  "biom_table \<Rightarrow> string frame \<Rightarrow> string frame option
     \<Rightarrow> biom_table \<times> (error + (string frame \<times> string frame option))" where
  "match_data table sample_metadata feature_metadata =
     (let subtablefids = ids table Observation;
          subtablesids = ids table Sample
      in if length subtablesids \<noteq> length (pyset subtablesids)
         then (table, Inl (ValueError msg_dup_samples))
         else if length subtablefids \<noteq> length (pyset subtablefids)
         then (table, Inl (ValueError msg_dup_features))
         else
          (let submetadataids = pyset (index sample_metadata);
               subtablesids1 = pyset subtablesids;
               subtablefids1 = pyset subtablefids;
               sidx = intersection subtablesids1 submetadataids
           in case feature_metadata of
                None \<Rightarrow>
                  if length sidx = 0 then (table, Inl (ValueError msg_no_samples))
                  else
                   (let table1 = table_filter sidx Sample table
                    in case reindex sidx sample_metadata of
                         Inl e \<Rightarrow> (table1, Inl e)
                       | Inr sample_metadata1 \<Rightarrow> (table1, Inr (sample_metadata1, None)))
              | Some fm \<Rightarrow>
                  (let submetadatafeat = pyset (index fm);
                       fidx = intersection subtablefids1 submetadatafeat
                   in if length fidx = 0 then (table, Inl (ValueError msg_no_features))
                      else case reindex fidx fm of
                             Inl e \<Rightarrow> (table, Inl e)
                           | Inr feature_metadata1 \<Rightarrow>
                               if length sidx = 0
                               then (table, Inl (ValueError msg_no_samples))
                               else
                                (let table1 = table_filter fidx Observation table;
                                     table2 = table_filter sidx Sample table1
                                 in case reindex sidx sample_metadata of
                                      Inl e \<Rightarrow> (table2, Inl e)
                                    | Inr sample_metadata1 \<Rightarrow>
                                        (table2, Inr (sample_metadata1,
                                                      Some feature_metadata1))))))"

subsection \<open>Filtering by total count (lines 123--129)\<close>

fun filter_counts :: "(axis \<times> int) list \<Rightarrow> biom_table \<Rightarrow> biom_table" where
  "filter_counts [] table = table"
| "filter_counts ((ax, min_sum) # rest) table =
     filter_counts rest
       (table_filter
          (select_mask (map (\<lambda>s. real_of_int min_sum \<le> s) (table_sum table ax)) (ids table ax))
          ax table)"

definition filter_table :: "int \<Rightarrow> int \<Rightarrow> biom_table \<Rightarrow> biom_table" where
  "filter_table min_sample_count min_feature_count table =
     filter_counts (zip [Sample, Observation] [min_sample_count, min_feature_count]) table"

text \<open>Lines 94--129 together: the alignment and filtering stage of the driver.\<close>

definition align_and_filter ::
  "biom_table \<Rightarrow> string frame \<Rightarrow> string frame option \<Rightarrow> int \<Rightarrow> int
     \<Rightarrow> biom_table \<times> (error + (string frame \<times> string frame option))" where
  "align_and_filter table sample_metadata feature_metadata min_sample_count min_feature_count =
     (case match_data table sample_metadata feature_metadata of
        (table1, Inl e) \<Rightarrow> (table1, Inl e)
      | (table1, Inr matched) \<Rightarrow>
          (filter_table min_sample_count min_feature_count table1, Inr matched))"

subsection \<open>The fitted factorization (lines 136--148)\<close>

text \<open>The tensor builder and the factorization engine are not part of the embedded files.
  What the driver reads of them is the labelled result: the loading tables, the eigenvalues
  and proportions explained, and one distance matrix and two trajectory tables per
  condition. The function \<open>factorize\<close> of \<open>ctf_helper\<close> stands for lines 136--148 and returns
  \<^verbatim>\<open>tensor.conditions\<close> with this record, or raises.\<close>

datatype label = StrL string | IntL int

record tf_result =
  subjects :: "string frame"
  features :: "string frame"
  proportion_explained :: "string frame"
  eigvals :: "string frame"
  subject_distances :: "real list list list"
  subject_trajectory :: "string frame list"
  feature_trajectory :: "label frame list"

subsection \<open>The third axis for two components (lines 150--158)\<close>

text \<open>\<^verbatim>\<open>df[label] = vals\<close>: an existing column of that name is overwritten, otherwise a new
  column is appended after the others.\<close>

definition setitem_column :: "string \<Rightarrow> cell list \<Rightarrow> 'i frame \<Rightarrow> 'i frame" where
  "setitem_column l vals f =
     (if l \<in> set (column_names f)
      then f\<lparr>columns := map (\<lambda>c. if col_name c = l
                                    then c\<lparr>col_dtype := IntT, col_values := vals\<rparr> else c)
                             (columns f)\<rparr>
      else f\<lparr>columns := columns f @ [\<lparr>col_name = l, col_dtype = IntT, col_values = vals\<rparr>]\<rparr>)"

text \<open>\<^verbatim>\<open>df.loc[label, :] = v\<close>: every cell of an existing row of that label is set to \<open>v\<close>,
  otherwise a new row holding \<open>v\<close> in every column is appended after the others.\<close>

definition loc_setitem_row :: "'i \<Rightarrow> cell \<Rightarrow> 'i frame \<Rightarrow> 'i frame" where
  "loc_setitem_row l v f =
     (if l \<in> set (index f)
      then f\<lparr>columns := map (\<lambda>c. c\<lparr>col_values := map (\<lambda>(i, x). if i = l then v else x)
                                                          (zip (index f) (col_values c))\<rparr>)
                             (columns f)\<rparr>
      else f\<lparr>index := index f @ [l],
             columns := map (\<lambda>c. c\<lparr>col_values := col_values c @ [v]\<rparr>) (columns f)\<rparr>)"

definition add_PC3 :: "int \<Rightarrow> tf_result \<Rightarrow> tf_result" where
  "add_PC3 n_components TF =
     (if n_components = 2
      then TF\<lparr>subjects := setitem_column ''PC3''
                             (replicate (length (index (subjects TF))) (NumV 0)) (subjects TF),
              features := setitem_column ''PC3''
                             (replicate (length (index (features TF))) (NumV 0)) (features TF),
              proportion_explained := loc_setitem_row ''PC3'' (NumV 0) (proportion_explained TF),
              eigvals := loc_setitem_row ''PC3'' (NumV 0) (eigvals TF)\<rparr>
      else TF)"

subsection \<open>The ordination results (lines 160--171)\<close>

fun startswith :: "'a list \<Rightarrow> 'a list \<Rightarrow> bool" where
  "startswith s [] = True"
| "startswith [] (p # ps) = False"
| "startswith (c # cs) (p # ps) = (c = p \<and> startswith cs ps)"

text \<open>Python's \<^verbatim>\<open>sub in s\<close> on strings.\<close>

fun str_contains :: "string \<Rightarrow> string \<Rightarrow> bool" where
  "str_contains [] sub = (sub = [])"
| "str_contains (c # cs) sub = (startswith (c # cs) sub \<or> str_contains cs sub)"

text \<open>\<^verbatim>\<open>df.loc[mask]\<close> with a boolean mask over the rows.\<close>

definition loc_rows :: "bool list \<Rightarrow> 'i frame \<Rightarrow> 'i frame" where
  "loc_rows bools f =
     f\<lparr>index := select_mask bools (index f),
       columns := map (\<lambda>c. c\<lparr>col_values := select_mask bools (col_values c)\<rparr>) (columns f)\<rparr>"

definition row_isna :: "column list \<Rightarrow> nat \<Rightarrow> bool" where
  "row_isna cols i = list_ex (\<lambda>c. col_values c ! i = NaN) cols"

text \<open>\<^verbatim>\<open>df.dropna(axis=0)\<close> drops the rows holding a missing value in any column;
  \<^verbatim>\<open>df.dropna(subset=labels)\<close> looks only at the columns carrying one of the labels.\<close>

definition dropna :: "'i frame \<Rightarrow> 'i frame" where
  "dropna f =
     loc_rows (map (\<lambda>i. \<not> row_isna (columns f) i) [0..<length (index f)]) f"

definition dropna_subset :: "string list \<Rightarrow> 'i frame \<Rightarrow> 'i frame" where
  "dropna_subset labels f =
     loc_rows (map (\<lambda>i. \<not> row_isna (filter (\<lambda>c. col_name c \<in> set labels) (columns f)) i)
                   [0..<length (index f)]) f"

record ordination_results =
  short_method_name :: string
  long_method_name :: string
  ord_eigvals :: "string frame"
  ord_samples :: "string frame"
  ord_features :: "string frame"
  ord_proportion_explained :: "string frame"

definition make_ordination :: "tf_result \<Rightarrow> error + ordination_results" where
  "make_ordination TF =
     (let keep_PC = filter (\<lambda>col. str_contains col ''PC'') (column_names (features TF))
      in case getitem_columns keep_PC (subjects TF) of
           Inl e \<Rightarrow> Inl e
         | Inr subjects_PC \<Rightarrow>
            (case getitem_columns keep_PC (features TF) of
               Inl e \<Rightarrow> Inl e
             | Inr features_PC \<Rightarrow>
                 Inr \<lparr>short_method_name = ''CTF_Biplot'',
                      long_method_name = ''Compositional Tensor Factorization Biplot'',
                      ord_eigvals = eigvals TF,
                      ord_samples = dropna subjects_PC,
                      ord_features = dropna features_PC,
                      ord_proportion_explained = proportion_explained TF\<rparr>))"

subsection \<open>Distances and trajectories per condition (lines 173--203)\<close>

text \<open>A Python \<^verbatim>\<open>dict\<close> that is iterated is an association list in insertion order;
  assigning to a key that is present replaces its value in place.\<close>

fun dict_setitem :: "'k \<Rightarrow> 'v \<Rightarrow> ('k \<times> 'v) list \<Rightarrow> ('k \<times> 'v) list" where
  "dict_setitem k v [] = [(k, v)]"
| "dict_setitem k v ((k', v') # d) =
     (if k = k' then (k, v) # d else (k', v') # dict_setitem k v d)"

text \<open>\<^verbatim>\<open>dict((ind, ind_i) for ind_i, ind in enumerate(ids))\<close>: a later position of the same
  id replaces an earlier one.\<close>

definition enumerate_dict :: "'a list \<Rightarrow> ('a \<rightharpoonup> nat)" where
  "enumerate_dict xs = fold (\<lambda>(ind_i, ind) d. d(ind \<mapsto> ind_i)) (enumerate 0 xs) Map.empty"

text \<open>Integer-array indexing \<^verbatim>\<open>a[indices]\<close> of numpy and of a pandas index: a position
  outside the array raises \<^verbatim>\<open>IndexError\<close>.\<close>

definition take_indices :: "nat list \<Rightarrow> 'a list \<Rightarrow> error + 'a list" where
  "take_indices indices xs =
     (if list_all (\<lambda>i. i < length xs) indices then Inr (map (\<lambda>i. xs ! i) indices)
      else Inl (IndexError ''index is out of bounds''))"

fun sequence :: "(error + 'a) list \<Rightarrow> error + 'a list" where
  "sequence [] = Inr []"
| "sequence (Inl e # rs) = Inl e"
| "sequence (Inr x # rs) = (case sequence rs of Inl e \<Rightarrow> Inl e | Inr xs \<Rightarrow> Inr (x # xs))"

text \<open>\<^verbatim>\<open>skbio.DistanceMatrix(data, ids=ids)\<close> validates its arguments: the data are at
  least 1x1 and square, the ids are unique and as many as the rows, the diagonal is zero and
  the matrix is symmetric.\<close>

record distance_matrix =
  dm_data :: "real list list"
  dm_ids :: "string list"

definition is_hollow :: "real list list \<Rightarrow> bool" where
  "is_hollow data = list_all (\<lambda>i. data ! i ! i = 0) [0..<length data]"

definition is_symmetric :: "real list list \<Rightarrow> bool" where
  "is_symmetric data =
     list_all (\<lambda>i. list_all (\<lambda>j. data ! i ! j = data ! j ! i) [0..<length data])
              [0..<length data]"

definition DistanceMatrix :: "real list list \<Rightarrow> string list \<Rightarrow> error + distance_matrix" where
  "DistanceMatrix data dids =
     (if data = [] \<or> list_ex (\<lambda>row. row = []) data
      then Inl (DistanceMatrixError ''Data must be at least 1x1 in size.'')
      else if \<not> list_all (\<lambda>row. length row = length data) data
      then Inl (DistanceMatrixError ''Data must be square.'')
      else if \<not> distinct dids
      then Inl (DistanceMatrixError ''IDs must be unique.'')
      else if length dids \<noteq> length data
      then Inl (DistanceMatrixError ''The number of IDs must match the number of rows.'')
      else if \<not> is_hollow data
      then Inl (DistanceMatrixError ''Data must be hollow.'')
      else if \<not> is_symmetric data
      then Inl (DistanceMatrixError ''Data must be symmetric.'')
      else Inr \<lparr>dm_data = data, dm_ids = dids\<rparr>)"

text \<open>Lines 181--188. Every id of \<open>inter\<close> is a key of \<open>ind_dict\<close>, so each lookup
  \<^verbatim>\<open>ind_dict[ind]\<close> succeeds.\<close>

definition match_indices :: "string list \<Rightarrow> string list \<Rightarrow> nat list" where
  "match_indices straj_index sample_metadata_index =
     (let ind_dict = enumerate_dict straj_index;
          inter = intersection (pyset straj_index) sample_metadata_index
      in sort (List.map_filter ind_dict inter))"

definition match_distances ::
  "real list list \<Rightarrow> string list \<Rightarrow> string list \<Rightarrow> error + distance_matrix" where
  "match_distances dist_arr straj_index sample_metadata_index =
     (let indices = match_indices straj_index sample_metadata_index
      in case take_indices indices dist_arr of
           Inl e \<Rightarrow> Inl e
         | Inr dist_rows \<Rightarrow>
            (case sequence (map (take_indices indices) dist_rows) of
               Inl e \<Rightarrow> Inl e
             | Inr dist1 \<Rightarrow>
                (case take_indices indices straj_index of
                   Inl e \<Rightarrow> Inl e
                 | Inr ids1 \<Rightarrow> DistanceMatrix dist1 ids1)))"

text \<open>\<^verbatim>\<open>concat([a, b], axis=1, sort=True)\<close>: the rows of both frames are aligned on the
  sorted union of the two indexes, the columns of \<open>a\<close> come before those of \<open>b\<close>.\<close>

definition concat_axis1_sorted :: "string frame \<Rightarrow> string frame \<Rightarrow> error + string frame" where
  "concat_axis1_sorted a b =
     (let new_index = sort (pyset (index a @ index b))
      in case reindex new_index a of
           Inl e \<Rightarrow> Inl e
         | Inr a1 \<Rightarrow>
            (case reindex new_index b of
               Inl e \<Rightarrow> Inl e
             | Inr b1 \<Rightarrow>
                 Inr \<lparr>index_name = (if index_name a = index_name b then index_name a else None),
                      index = new_index,
                      columns = columns a1 @ columns b1\<rparr>))"

text \<open>Lines 189--198.\<close>

definition merge_trajectory :: "string frame \<Rightarrow> string frame \<Rightarrow> error + string frame" where
  "merge_trajectory straj all_sample_metadata =
     (let pre_merge_cols = column_names straj
      in case reindex (index all_sample_metadata) straj of
           Inl e \<Rightarrow> Inl e
         | Inr straj1 \<Rightarrow>
            (case concat_axis1_sorted straj1 all_sample_metadata of
               Inl e \<Rightarrow> Inl e
             | Inr straj2 \<Rightarrow>
                (let straj3 = dropna_subset pre_merge_cols straj2
                 in Inr (straj3\<lparr>index_name := Some ''#SampleID''\<rparr>))))"

text \<open>Python's \<^verbatim>\<open>str\<close> on an index label, and \<^verbatim>\<open>index.astype(str)\<close>.\<close>

fun str_nat :: "nat \<Rightarrow> string" where
  "str_nat n =
     (if n < 10 then [''0123456789'' ! n]
      else str_nat (n div 10) @ [''0123456789'' ! (n mod 10)])"

fun str :: "label \<Rightarrow> string" where
  "str (StrL s) = s"
| "str (IntL i) = (if i < 0 then CHR ''-'' # str_nat (nat (- i)) else str_nat (nat i))"

definition index_astype_str :: "label frame \<Rightarrow> string frame" where
  "index_astype_str f =
     \<lparr>index_name = index_name f, index = map str (index f), columns = columns f\<rparr>"

type_synonym outputs =
  "(string \<times> distance_matrix) list \<times> (string \<times> string frame) list
     \<times> (string \<times> string frame) list"

fun condition_loop ::
  "string frame \<Rightarrow> string frame
     \<Rightarrow> (string \<times> real list list \<times> string frame \<times> label frame) list
     \<Rightarrow> outputs \<Rightarrow> error + outputs" where
  "condition_loop sample_metadata all_sample_metadata [] out = Inr out"
| "condition_loop sample_metadata all_sample_metadata ((condition, dist_arr, straj, ftraj) # rest)
       (distances, subject_trajectories, feature_trajectories) =
     (case match_distances dist_arr (index straj) (index sample_metadata) of
        Inl e \<Rightarrow> Inl e
      | Inr dm \<Rightarrow>
         (case merge_trajectory straj all_sample_metadata of
            Inl e \<Rightarrow> Inl e
          | Inr straj1 \<Rightarrow>
              condition_loop sample_metadata all_sample_metadata rest
                (dict_setitem condition dm distances,
                 dict_setitem condition straj1 subject_trajectories,
                 dict_setitem condition (index_astype_str ftraj) feature_trajectories)))"

subsection \<open>The driver\<close>

text \<open>\<open>ctf_helper\<close> with its two collaborators as parameters: \<open>q2\<close> for
  \<^verbatim>\<open>qiime2.Metadata(df).to_dataframe()\<close> and \<open>factorize\<close> for the construction of the
  tensor, the fit and the labelling of lines 136--148. The first component of the result is
  the state in which the call leaves the caller's table object.\<close>

type_synonym factorizer =
  "string frame \<Rightarrow> string frame \<Rightarrow> string \<Rightarrow> string list \<Rightarrow> int \<Rightarrow> int \<Rightarrow> int \<Rightarrow> int
     \<Rightarrow> string frame option \<Rightarrow> error + (string list \<times> tf_result)"

definition ctf_helper ::
  "(string frame \<Rightarrow> error + string frame) \<Rightarrow> factorizer
     \<Rightarrow> biom_table \<Rightarrow> metadata_arg \<Rightarrow> string \<Rightarrow> string list
     \<Rightarrow> int \<Rightarrow> int \<Rightarrow> int \<Rightarrow> int \<Rightarrow> int \<Rightarrow> int \<Rightarrow> metadata_arg option
     \<Rightarrow> biom_table \<times> (error + (ordination_results \<times> outputs))" where
  "ctf_helper q2 factorize table sample_metadata individual_id_column state_columns
       n_components min_sample_count min_feature_count
       max_iterations_als max_iterations_rptm n_initializations feature_metadata =
     (case validate_sample_metadata q2 sample_metadata individual_id_column state_columns of
        Inl e \<Rightarrow> (table, Inl e)
      | Inr (sample_metadata1, all_sample_metadata) \<Rightarrow>
         (case validate_feature_metadata q2 feature_metadata of
            Inl e \<Rightarrow> (table, Inl e)
          | Inr feature_metadata1 \<Rightarrow>
             (case align_and_filter table sample_metadata1 feature_metadata1
                     min_sample_count min_feature_count of
                (table2, Inl e) \<Rightarrow> (table2, Inl e)
              | (table2, Inr (sample_metadata2, feature_metadata2)) \<Rightarrow>
                 (case factorize (table_to_dataframe table2) sample_metadata2
                         individual_id_column state_columns n_components
                         max_iterations_als max_iterations_rptm n_initializations
                         feature_metadata2 of
                    Inl e \<Rightarrow> (table2, Inl e)
                  | Inr (conditions, TF0) \<Rightarrow>
                     (let TF = add_PC3 n_components TF0
                      in case make_ordination TF of
                           Inl e \<Rightarrow> (table2, Inl e)
                         | Inr ordination \<Rightarrow>
                            (case condition_loop sample_metadata2 all_sample_metadata
                                    (zip conditions (zip (subject_distances TF)
                                       (zip (subject_trajectory TF) (feature_trajectory TF))))
                                    ([], [], []) of
                               Inl e \<Rightarrow> (table2, Inl e)
                             | Inr out \<Rightarrow> (table2, Inr (ordination, out))))))))"

subsection \<open>The commands \<^verbatim>\<open>phylogenetic-rclr\<close> and \<^verbatim>\<open>rclr\<close>\<close>

text \<open>The file system is a map from paths to files; a file holds a table or a tree. The
  transformations (\<^verbatim>\<open>gemelli.preprocessing\<close>) are parameters. A value that click hands to a
  command is a string, since the options declare no type; a \<^verbatim>\<open>pathlib.Path\<close> is the other
  kind of value that names a file.\<close>

datatype 'p file_content = BiomFile biom_table | NewickFile 'p

type_synonym 'p filesystem = "string \<rightharpoonup> 'p file_content"

datatype pyval = PyStr string | PyPath string

fun path_of :: "pyval \<Rightarrow> string" where
  "path_of (PyStr s) = s"
| "path_of (PyPath s) = s"

text \<open>\<^verbatim>\<open>biom.load_table(path)\<close> and \<^verbatim>\<open>TreeNode.read(fh, format='newick')\<close>\<close>

definition load_table :: "'p filesystem \<Rightarrow> pyval \<Rightarrow> error + biom_table" where
  "load_table fs f =
     (case fs (path_of f) of
        Some (BiomFile t) \<Rightarrow> Inr t
      | Some (NewickFile p) \<Rightarrow> Inl (ExternalError ''not a biom table'')
      | None \<Rightarrow> Inl (ExternalError ''no such file''))"

definition read_newick :: "'p filesystem \<Rightarrow> string \<Rightarrow> error + 'p" where
  "read_newick fs path =
     (case fs path of
        Some (NewickFile p) \<Rightarrow> Inr p
      | Some (BiomFile t) \<Rightarrow> Inl (ExternalError ''not a newick tree'')
      | None \<Rightarrow> Inl (ExternalError ''no such file''))"

text \<open>\<^verbatim>\<open>os.path.join(a, b)\<close> for a relative \<open>b\<close>.\<close>

definition path_join :: "string \<Rightarrow> string \<Rightarrow> string" where
  "path_join a b = (if a = [] then b else if last a = CHR ''/'' then a @ b else a @ ''/'' @ b)"

text \<open>The body of \<^verbatim>\<open>standalone_phylogenetic_rclr\<close> (lines 33--56). \<^verbatim>\<open>in_tree.open()\<close> is a
  method of a path object; a string has none.\<close>

definition standalone_phylogenetic_rclr ::
  "(biom_table \<Rightarrow> 'p \<Rightarrow> error + (biom_table \<times> biom_table \<times> 'p))
     \<Rightarrow> 'p filesystem \<Rightarrow> pyval \<Rightarrow> pyval \<Rightarrow> pyval \<Rightarrow> 'p filesystem \<times> (error + unit)" where
  "standalone_phylogenetic_rclr phylogenetic_rclr_transformation fs in_biom in_tree output_dir =
     (case load_table fs in_biom of
        Inl e \<Rightarrow> (fs, Inl e)
      | Inr table \<Rightarrow>
         (case in_tree of
            PyStr s \<Rightarrow> (fs, Inl (AttributeError ''open''))
          | PyPath path \<Rightarrow>
             (case read_newick fs path of
                Inl e \<Rightarrow> (fs, Inl e)
              | Inr phylogeny \<Rightarrow>
                 (case phylogenetic_rclr_transformation table phylogeny of
                    Inl e \<Rightarrow> (fs, Inl e)
                  | Inr (counts_by_node, rclr_table, phylogeny1) \<Rightarrow>
                     (let fs1 = fs(path_join (path_of output_dir) ''labeled-phylogeny.tsv''
                                     \<mapsto> NewickFile phylogeny1);
                          fs2 = fs1(path_join (path_of output_dir) ''phylo-rclr-table.biom''
                                     \<mapsto> BiomFile rclr_table);
                          fs3 = fs2(path_join (path_of output_dir) ''phylo-count-table.biom''
                                     \<mapsto> BiomFile counts_by_node)
                      in (fs3, Inr ()))))))"

text \<open>The body of \<^verbatim>\<open>standalone_rclr\<close> (lines 74--87).\<close>

definition standalone_rclr ::
  "(biom_table \<Rightarrow> error + biom_table)
     \<Rightarrow> 'p filesystem \<Rightarrow> pyval \<Rightarrow> pyval \<Rightarrow> 'p filesystem \<times> (error + unit)" where
  "standalone_rclr rclr_transformation fs in_biom output_dir =
     (case load_table fs in_biom of
        Inl e \<Rightarrow> (fs, Inl e)
      | Inr table0 \<Rightarrow>
         (case rclr_transformation table0 of
            Inl e \<Rightarrow> (fs, Inl e)
          | Inr table \<Rightarrow>
              (fs(path_join (path_of output_dir) ''rclr-table.biom'' \<mapsto> BiomFile table),
               Inr ())))"

text \<open>click names the keyword of an option after the option: the leading dashes go, every
  other dash becomes an underscore. It refuses an option that is not declared and the
  absence of a required one, and then calls the function of the command with one keyword
  argument per declared option.\<close>

definition option_keyword :: "string \<Rightarrow> string" where
  "option_keyword opt =
     map (\<lambda>c. if c = CHR ''-'' then CHR ''_'' else c) (dropWhile (\<lambda>c. c = CHR ''-'') opt)"

definition click_params :: "string list \<Rightarrow> (string \<times> string) list \<Rightarrow> error + (string \<times> pyval) list" where
  "click_params opts argv =
     (case filter (\<lambda>(opt, v). opt \<notin> set opts) argv of
        (opt, v) # rest \<Rightarrow> Inl (UsageError (''No such option: '' @ opt))
      | [] \<Rightarrow>
         (case filter (\<lambda>opt. opt \<notin> set (map fst argv)) opts of
            opt # rest \<Rightarrow> Inl (UsageError (''Missing option '' @ opt))
          | [] \<Rightarrow>
              Inr (List.map_filter
                     (\<lambda>opt. map_option (\<lambda>v. (option_keyword opt, PyStr v)) (map_of (rev argv) opt))
                     opts)))"

text \<open>A Python call \<^verbatim>\<open>f(**kwargs)\<close> of a function with the given parameters, none of which
  has a default: a keyword that is no parameter raises \<^verbatim>\<open>TypeError\<close>, and so does a
  parameter without argument.\<close>

definition call_with_keywords :: "string list \<Rightarrow> (string \<times> 'v) list \<Rightarrow> error + 'v list" where
  "call_with_keywords params kwargs =
     (case filter (\<lambda>(k, v). k \<notin> set params) kwargs of
        (k, v) # rest \<Rightarrow> Inl (TypeError (''got an unexpected keyword argument '' @ k))
      | [] \<Rightarrow>
         (case filter (\<lambda>p. p \<notin> set (map fst kwargs)) params of
            p # rest \<Rightarrow> Inl (TypeError (''missing a required argument: '' @ p))
          | [] \<Rightarrow> Inr (List.map_filter (map_of kwargs) params)))"

text \<open>The two commands as click runs them (lines 12--24 and 59--67).\<close>

definition phylogenetic_rclr_command ::
  "(biom_table \<Rightarrow> 'p \<Rightarrow> error + (biom_table \<times> biom_table \<times> 'p))
     \<Rightarrow> 'p filesystem \<Rightarrow> (string \<times> string) list \<Rightarrow> 'p filesystem \<times> (error + unit)" where
  "phylogenetic_rclr_command phylogenetic_rclr_transformation fs argv =
     (case click_params [''--in-biom'', ''--in-phylogeny'', ''--output-dir''] argv of
        Inl e \<Rightarrow> (fs, Inl e)
      | Inr kwargs \<Rightarrow>
         (case call_with_keywords [''in_biom'', ''in_tree'', ''output_dir''] kwargs of
            Inl e \<Rightarrow> (fs, Inl e)
          | Inr args \<Rightarrow>
             (case args of
                [in_biom, in_tree, output_dir] \<Rightarrow>
                  standalone_phylogenetic_rclr phylogenetic_rclr_transformation fs
                    in_biom in_tree output_dir
              | _ \<Rightarrow> (fs, Inl (TypeError ''wrong number of arguments'')))))"

definition rclr_command ::
  "(biom_table \<Rightarrow> error + biom_table)
     \<Rightarrow> 'p filesystem \<Rightarrow> (string \<times> string) list \<Rightarrow> 'p filesystem \<times> (error + unit)" where
  "rclr_command rclr_transformation fs argv =
     (case click_params [''--in-biom'', ''--output-dir''] argv of
        Inl e \<Rightarrow> (fs, Inl e)
      | Inr kwargs \<Rightarrow>
         (case call_with_keywords [''in_biom'', ''output_dir''] kwargs of
            Inl e \<Rightarrow> (fs, Inl e)
          | Inr args \<Rightarrow>
             (case args of
                [in_biom, output_dir] \<Rightarrow> standalone_rclr rclr_transformation fs in_biom output_dir
              | _ \<Rightarrow> (fs, Inl (TypeError ''wrong number of arguments'')))))"

subsection \<open>Shape invariants\<close>



section \<open>Notions used in the statements\<close>

text \<open>The rule in the words of the claim: an auxiliary column (one that is neither a state
  column nor the subject column) stays unless its dtype is bool, or it holds the string
  \<open>True\<close> or the string \<open>False\<close> but not both.\<close>

definition aux_column_kept :: "string list \<Rightarrow> column \<Rightarrow> bool" where
  "aux_column_kept keep_cols c =
     (col_name c \<notin> set keep_cols \<and> col_dtype c \<noteq> BoolT
      \<and> \<not> ((eq_any ''True'' c \<or> eq_any ''False'' c)
            \<and> \<not> (eq_any ''True'' c \<and> eq_any ''False'' c)))"


text \<open>The rows of a frame, as lists of cells.\<close>

definition frame_rows :: "'i frame \<Rightarrow> cell list list" where
  "frame_rows f = map (\<lambda>i. map (\<lambda>c. col_values c ! i) (columns f)) [0..<length (index f)]"

text \<open>The de-duplication of the claim would be \<^verbatim>\<open>df.drop_duplicates()\<close>: of several rows with
  the same cells only the first stays.\<close>

definition drop_duplicates :: "'i frame \<Rightarrow> 'i frame" where
  "drop_duplicates f =
     loc_rows (map (\<lambda>i. frame_rows f ! i \<notin> set (take i (frame_rows f))) [0..<length (index f)]) f"




section \<open>Example inputs\<close>

text \<open>Sample metadata of two samples: the subject and state columns and four auxiliary
  columns, one of dtype bool, one holding only the string \<open>True\<close>, one holding both
  strings, one numeric.\<close>

definition ex_metadata :: "string frame" where
  "ex_metadata =
     \<lparr>index_name = None, index = [''s1'', ''s2''],
      columns =
        [\<lparr>col_name = ''subject'', col_dtype = ObjectT, col_values = [StrV ''a'', StrV ''b'']\<rparr>,
         \<lparr>col_name = ''state'', col_dtype = IntT, col_values = [NumV 1, NumV 1]\<rparr>,
         \<lparr>col_name = ''is_control'', col_dtype = BoolT, col_values = [BoolV True, BoolV False]\<rparr>,
         \<lparr>col_name = ''flag'', col_dtype = ObjectT, col_values = [StrV ''True'', StrV ''x'']\<rparr>,
         \<lparr>col_name = ''mixed'', col_dtype = ObjectT,
           col_values = [StrV ''True'', StrV ''False'']\<rparr>,
         \<lparr>col_name = ''age'', col_dtype = FloatT, col_values = [NumV 30, NaN]\<rparr>]\<rparr>"

text \<open>A table of two features and three samples, a table that repeats a sample id, and a
  table none of whose samples is in \<open>ex_metadata\<close>.\<close>

definition ex_table :: biom_table where
  "ex_table = \<lparr>observation_ids = [''f1'', ''f2''], sample_ids = [''s1'', ''s2'', ''s3''],
                matrix_data = [[5, 1, 2], [0, 1, 7]]\<rparr>"

definition ex_dup_table :: biom_table where
  "ex_dup_table = \<lparr>observation_ids = [''f1'', ''f2''], sample_ids = [''s1'', ''s1'', ''s3''],
                    matrix_data = [[5, 1, 2], [0, 1, 7]]\<rparr>"

definition ex_other_table :: biom_table where
  "ex_other_table = \<lparr>observation_ids = [''f1'', ''f2''], sample_ids = [''x1'', ''x2''],
                      matrix_data = [[5, 1], [0, 1]]\<rparr>"

definition ex_sample_metadata :: "string frame" where
  "ex_sample_metadata = ex_metadata\<lparr>columns := [columns ex_metadata ! 1, columns ex_metadata ! 0]\<rparr>"

definition ex_aligned_table :: biom_table where
  "ex_aligned_table = \<lparr>observation_ids = [''f1'', ''f2''], sample_ids = [''s1'', ''s2''],
                        matrix_data = [[5, 1], [0, 1]]\<rparr>"


text \<open>A fitted factorization of two components with one condition, the auxiliary metadata
  that go with \<open>ex_metadata\<close>, and the outputs of the loop over the conditions.\<close>

definition ex_TF :: tf_result where
  "ex_TF =
     \<lparr>subjects = \<lparr>index_name = None, index = [''a'', ''b''],
                   columns = [\<lparr>col_name = ''PC1'', col_dtype = FloatT,
                                col_values = [NumV (1/2), NumV (1/2)]\<rparr>,
                              \<lparr>col_name = ''PC2'', col_dtype = FloatT,
                                col_values = [NumV (1/4), NumV (1/4)]\<rparr>]\<rparr>,
      features = \<lparr>index_name = None, index = [''f1'', ''f2''],
                   columns = [\<lparr>col_name = ''PC1'', col_dtype = FloatT,
                                col_values = [NumV 1, NaN]\<rparr>,
                              \<lparr>col_name = ''PC2'', col_dtype = FloatT,
                                col_values = [NumV 0, NumV 2]\<rparr>,
                              \<lparr>col_name = ''Taxon'', col_dtype = ObjectT,
                                col_values = [StrV ''k__Bacteria'', StrV ''k__Archaea'']\<rparr>]\<rparr>,
      proportion_explained =
        \<lparr>index_name = None, index = [''PC1'', ''PC2''],
         columns = [\<lparr>col_name = ''proportion_explained'', col_dtype = FloatT,
                      col_values = [NumV (3/4), NumV (1/4)]\<rparr>]\<rparr>,
      eigvals =
        \<lparr>index_name = None, index = [''PC1'', ''PC2''],
         columns = [\<lparr>col_name = ''eigvals'', col_dtype = FloatT,
                      col_values = [NumV 3, NumV 1]\<rparr>]\<rparr>,
      subject_distances = [[[0, 1, 4], [1, 0, 3], [4, 3, 0]]],
      subject_trajectory =
        [\<lparr>index_name = None, index = [''s2'', ''s1'', ''s0''],
          columns = [\<lparr>col_name = ''PC1'', col_dtype = FloatT,
                       col_values = [NumV 2, NaN, NumV 5]\<rparr>]\<rparr>],
      feature_trajectory =
        [\<lparr>index_name = None, index = [IntL 10, StrL ''f2''],
          columns = [\<lparr>col_name = ''PC1'', col_dtype = FloatT,
                       col_values = [NumV 1, NumV 3]\<rparr>]\<rparr>]\<rparr>"

definition ex_ordination :: ordination_results where
  "ex_ordination =
     \<lparr>short_method_name = ''CTF_Biplot'',
      long_method_name = ''Compositional Tensor Factorization Biplot'',
      ord_eigvals = eigvals ex_TF,
      ord_samples = subjects ex_TF,
      ord_features = \<lparr>index_name = None, index = [''f1''],
                       columns = [\<lparr>col_name = ''PC1'', col_dtype = FloatT,
                                    col_values = [NumV 1]\<rparr>,
                                  \<lparr>col_name = ''PC2'', col_dtype = FloatT,
                                    col_values = [NumV 0]\<rparr>]\<rparr>,
      ord_proportion_explained = proportion_explained ex_TF\<rparr>"

definition ex_aux_metadata :: "string frame" where
  "ex_aux_metadata = ex_metadata\<lparr>columns := [columns ex_metadata ! 4, columns ex_metadata ! 5]\<rparr>"

definition ex_items :: "(string \<times> real list list \<times> string frame \<times> label frame) list" where
  "ex_items = zip [''state''] (zip (subject_distances ex_TF)
                (zip (subject_trajectory ex_TF) (feature_trajectory ex_TF)))"

definition ex_dm :: distance_matrix where
  "ex_dm = \<lparr>dm_data = [[0, 1], [1, 0]], dm_ids = [''s2'', ''s1'']\<rparr>"

definition ex_straj :: "string frame" where
  "ex_straj =
     \<lparr>index_name = Some ''#SampleID'', index = [''s2''],
      columns = [\<lparr>col_name = ''PC1'', col_dtype = FloatT, col_values = [NumV 2]\<rparr>,
                 \<lparr>col_name = ''mixed'', col_dtype = ObjectT, col_values = [StrV ''False'']\<rparr>,
                 \<lparr>col_name = ''age'', col_dtype = FloatT, col_values = [NaN]\<rparr>]\<rparr>"

definition ex_ftraj :: "string frame" where
  "ex_ftraj =
     \<lparr>index_name = None, index = [''10'', ''f2''],
      columns = [\<lparr>col_name = ''PC1'', col_dtype = FloatT, col_values = [NumV 1, NumV 3]\<rparr>]\<rparr>"

text \<open>A factorization stage that returns \<open>ex_TF\<close> whatever its input, and the ordination
  results of a run with two components on it.\<close>

definition ex_factorize :: factorizer where
  "ex_factorize table sample_metadata individual_id_column state_columns n_components
       max_iterations_als max_iterations_rptm n_initializations feature_metadata =
     Inr (state_columns, ex_TF)"

definition ex_ordination3 :: ordination_results where
  "ex_ordination3 =
     \<lparr>short_method_name = ''CTF_Biplot'',
      long_method_name = ''Compositional Tensor Factorization Biplot'',
      ord_eigvals = eigvals (add_PC3 2 ex_TF),
      ord_samples = subjects (add_PC3 2 ex_TF),
      ord_features = \<lparr>index_name = None, index = [''f1''],
                       columns = [\<lparr>col_name = ''PC1'', col_dtype = FloatT,
                                    col_values = [NumV 1]\<rparr>,
                                  \<lparr>col_name = ''PC2'', col_dtype = FloatT,
                                    col_values = [NumV 0]\<rparr>,
                                  \<lparr>col_name = ''PC3'', col_dtype = IntT,
                                    col_values = [NumV 0]\<rparr>]\<rparr>,
      ord_proportion_explained = proportion_explained (add_PC3 2 ex_TF)\<rparr>"

text \<open>A file system holding a table and a tree.\<close>

definition ex_fs :: "string filesystem" where
  "ex_fs = [''table.biom'' \<mapsto> BiomFile ex_table, ''tree.nwk'' \<mapsto> NewickFile ''(f1,f2);'']"

section \<open>Properties\<close>

subsection \<open>Auxiliary lemmas on lists and frames\<close>

lemma select_mask_map: "select_mask (map P xs) xs = filter P xs"
  unfolding select_mask_def by (induction xs) auto

lemma drop_columns_Inr:
  "drop_columns labels f = Inr g \<Longrightarrow>
     g = f\<lparr>columns := filter (\<lambda>c. col_name c \<notin> set labels) (columns f)\<rparr>"
  by (auto simp: drop_columns_def split: list.splits)

lemma drop_bool_dtype_eq:
  "drop_bool_dtype f = f\<lparr>columns := filter (\<lambda>c. col_dtype c \<noteq> BoolT) (columns f)\<rparr>"
  by (simp add: drop_bool_dtype_def loc_columns_def Let_def select_mask_map comp_def)

lemma drop_bool_strings_eq:
  "drop_bool_strings f =
     f\<lparr>columns := filter (\<lambda>c. eq_any ''True'' c = eq_any ''False'' c) (columns f)\<rparr>"
  by (simp add: drop_bool_strings_def loc_columns_def Let_def select_mask_map comp_def)

subsection \<open>The rule that drops auxiliary metadata columns\<close>

lemma aux_column_kept_eq:
  "aux_column_kept keep_cols =
     (\<lambda>c. col_name c \<notin> set keep_cols \<and> col_dtype c \<noteq> BoolT
          \<and> eq_any ''True'' c = eq_any ''False'' c)"
  by (auto simp: aux_column_kept_def fun_eq_iff)

lemma ex_validate_DataFrame:
  "validate_sample_metadata Inr (DataFrame ex_metadata) ''subject'' [''state''] =
     Inr (ex_metadata\<lparr>columns := [columns ex_metadata ! 1, columns ex_metadata ! 0]\<rparr>,
          ex_metadata\<lparr>columns := [columns ex_metadata ! 4, columns ex_metadata ! 5]\<rparr>)"
  by (simp add: validate_sample_metadata_def drop_columns_def getitem_columns_def column_names_def
      ex_metadata_def drop_bool_dtype_def drop_bool_strings_def loc_columns_def select_mask_def
      eq_any_def Let_def)

lemma ex_validate_Metadata:
  "validate_sample_metadata Inr (Metadata ex_metadata) ''subject'' [''state''] =
     Inr (ex_metadata\<lparr>columns := [columns ex_metadata ! 1, columns ex_metadata ! 0]\<rparr>,
          ex_metadata\<lparr>columns := drop 2 (columns ex_metadata)\<rparr>)"
  by (simp add: validate_sample_metadata_def drop_columns_def getitem_columns_def column_names_def
      ex_metadata_def Let_def)

text \<open>C10. When the sample metadata is a raw data frame, the auxiliary columns that the
  driver keeps are exactly the columns that are neither state nor subject column, are not
  of dtype bool, and do not hold exactly one of the strings \<open>True\<close> and \<open>False\<close>
  (a column holding both stays); their order and their rows are those of the input. When
  the sample metadata is a \<open>Metadata\<close> object, every column other than the state and
  subject columns is kept.\<close>

theorem auxiliary_columns_drop_rule:
  "(validate_sample_metadata q2 (DataFrame df) individual_id_column state_columns
      = Inr (sample_metadata1, all_sample_metadata) \<longrightarrow>
    all_sample_metadata =
      df\<lparr>columns := filter (aux_column_kept (state_columns @ [individual_id_column]))
                           (columns df)\<rparr>)
   \<and> (validate_sample_metadata q2 (Metadata df) individual_id_column state_columns
        = Inr (sample_metadata2, all_sample_metadata2) \<longrightarrow>
      all_sample_metadata2 =
        df\<lparr>columns := filter (\<lambda>c. col_name c \<notin> set (state_columns @ [individual_id_column]))
                             (columns df)\<rparr>)"
  by (auto simp: validate_sample_metadata_def Let_def drop_bool_dtype_eq drop_bool_strings_eq
        aux_column_kept_eq conj_ac
      dest!: drop_columns_Inr split: sum.splits)

theorem auxiliary_columns_drop_rule_witness:
  "validate_sample_metadata Inr (DataFrame ex_metadata) ''subject'' [''state''] =
     Inr (ex_metadata\<lparr>columns := [columns ex_metadata ! 1, columns ex_metadata ! 0]\<rparr>,
          ex_metadata\<lparr>columns := [columns ex_metadata ! 4, columns ex_metadata ! 5]\<rparr>)
   \<and> ex_metadata\<lparr>columns := [columns ex_metadata ! 4, columns ex_metadata ! 5]\<rparr> =
       ex_metadata\<lparr>columns := filter (aux_column_kept ([''state''] @ [''subject'']))
                                     (columns ex_metadata)\<rparr>
   \<and> validate_sample_metadata Inr (Metadata ex_metadata) ''subject'' [''state''] =
       Inr (ex_metadata\<lparr>columns := [columns ex_metadata ! 1, columns ex_metadata ! 0]\<rparr>,
            ex_metadata\<lparr>columns := drop 2 (columns ex_metadata)\<rparr>)
   \<and> ex_metadata\<lparr>columns := drop 2 (columns ex_metadata)\<rparr> =
       ex_metadata\<lparr>columns := filter (\<lambda>c. col_name c \<notin> set ([''state''] @ [''subject'']))
                                     (columns ex_metadata)\<rparr>"
  using auxiliary_columns_drop_rule [of Inr ex_metadata "''subject''" "[''state'']"
          "ex_metadata\<lparr>columns := [columns ex_metadata ! 1, columns ex_metadata ! 0]\<rparr>"
          "ex_metadata\<lparr>columns := [columns ex_metadata ! 4, columns ex_metadata ! 5]\<rparr>"
          "ex_metadata\<lparr>columns := [columns ex_metadata ! 1, columns ex_metadata ! 0]\<rparr>"
          "ex_metadata\<lparr>columns := drop 2 (columns ex_metadata)\<rparr>"]
        ex_validate_DataFrame ex_validate_Metadata
  by blast

subsection \<open>Auxiliary lemmas on the matching stage\<close>

lemma length_pyset_neq: "(length xs \<noteq> length (pyset xs)) = (\<not> distinct xs)"
  unfolding pyset_def
  by (metis distinct_remdups length_remdups_eq remdups_id_iff_distinct)

lemma match_data_dup_samples:
  "\<not> distinct (ids table Sample) \<Longrightarrow>
     match_data table smd fmd = (table, Inl (ValueError msg_dup_samples))"
  by (simp add: match_data_def Let_def length_pyset_neq)

lemma match_data_dup_features:
  "distinct (ids table Sample) \<Longrightarrow> \<not> distinct (ids table Observation) \<Longrightarrow>
     match_data table smd fmd = (table, Inl (ValueError msg_dup_features))"
  by (simp add: match_data_def Let_def length_pyset_neq)

lemma ctf_helper_match_error:
  assumes "\<And>smd fmd. match_data table smd fmd = (table, Inl (err smd fmd))"
  shows "\<exists>e. \<forall>factorize. ctf_helper q2 factorize table md iid sc n msc mfc a b c fm = (table, Inl e)"
proof (cases "validate_sample_metadata q2 md iid sc")
  case (Inl e)
  then show ?thesis by (auto simp: ctf_helper_def)
next
  case (Inr p)
  obtain smd all_md where p: "p = (smd, all_md)" by (cases p)
  show ?thesis
  proof (cases "validate_feature_metadata q2 fm")
    case (Inl e)
    with Inr p show ?thesis by (auto simp: ctf_helper_def)
  next
    case fm1: (Inr fmd1)
    with Inr p show ?thesis
      by (auto simp: ctf_helper_def align_and_filter_def assms)
  qed
qed

lemma msgs_distinct:
  "msg_no_samples \<noteq> msg_dup_samples" "msg_no_samples \<noteq> msg_dup_features"
  "msg_no_features \<noteq> msg_dup_samples" "msg_no_features \<noteq> msg_dup_features"
  "msg_no_samples \<noteq> msg_no_features"
  "''cannot reindex on an axis with duplicate labels'' \<noteq> msg_dup_samples"
  "''cannot reindex on an axis with duplicate labels'' \<noteq> msg_dup_features"
  by (simp_all add: msg_no_samples_def msg_dup_samples_def msg_dup_features_def msg_no_features_def)

lemma reindex_not_dup_msg:
  "reindex l f \<noteq> Inl (ValueError msg_dup_samples)" "reindex l f \<noteq> Inl (ValueError msg_dup_features)"
  using msgs_distinct by (auto simp: reindex_def)

lemma match_data_distinct_passes:
  assumes "distinct (ids table Sample)" "distinct (ids table Observation)"
  shows "snd (match_data table smd fmd) \<noteq> Inl (ValueError msg_dup_samples)"
        "snd (match_data table smd fmd) \<noteq> Inl (ValueError msg_dup_features)"
  using assms msgs_distinct reindex_not_dup_msg
  by (auto simp: match_data_def Let_def length_pyset_neq split: option.splits sum.splits)

lemma intersection_empty_iff:
  "(length (intersection (pyset xs) (pyset ys)) = 0) = (set xs \<inter> set ys = {})"
  by (auto simp: intersection_def pyset_def filter_empty_conv)

lemma reindex_Inl: "reindex l f = Inl e \<Longrightarrow> \<exists>msg. e = ValueError msg"
  by (auto simp: reindex_def split: if_splits)

lemma match_data_no_samples:
  assumes "set (ids table Sample) \<inter> set (index smd) = {}"
  shows "\<exists>msg. match_data table smd fmd = (table, Inl (ValueError msg))"
  using assms
  by (auto simp: match_data_def Let_def intersection_empty_iff simp del: length_0_conv
      split: option.splits sum.splits dest: reindex_Inl)

lemma reindex_distinct_Inr: "distinct (index f) \<Longrightarrow> \<exists>g. reindex l f = Inr g"
  by (simp add: reindex_def)

lemma match_data_no_samples_msg:
  assumes "set (ids table Sample) \<inter> set (index smd) = {}"
      and "distinct (ids table Sample)" "distinct (ids table Observation)"
      and "case fmd of None \<Rightarrow> True
           | Some f \<Rightarrow> set (ids table Observation) \<inter> set (index f) \<noteq> {} \<and> distinct (index f)"
  shows "match_data table smd fmd = (table, Inl (ValueError msg_no_samples))"
proof (cases fmd)
  case None
  with assms show ?thesis
    by (simp add: match_data_def Let_def intersection_empty_iff length_pyset_neq del: length_0_conv)
next
  case (Some f)
  with assms(4) have f: "set (ids table Observation) \<inter> set (index f) \<noteq> {}" "distinct (index f)"
    by auto
  from f(2) obtain g where g: "reindex (intersection (pyset (ids table Observation)) (pyset (index f))) f = Inr g"
    using reindex_distinct_Inr by blast
  from assms(1-3) Some f(1) g show ?thesis
    by (simp add: match_data_def Let_def intersection_empty_iff length_pyset_neq del: length_0_conv)
qed

lemma ctf_helper_via_match:
  "validate_sample_metadata q2 md iid sc = Inr (smd, all_md) \<Longrightarrow>
   validate_feature_metadata q2 fm = Inr fmd1 \<Longrightarrow>
   match_data table smd fmd1 = (table1, Inl e) \<Longrightarrow>
   ctf_helper q2 factorize table md iid sc n msc mfc a b c fm = (table1, Inl e)"
  by (simp add: ctf_helper_def align_and_filter_def)

lemma msg_no_samples_names:
  "str_contains msg_no_samples ''`sample-metadata`''"
  "\<not> str_contains msg_no_features ''`sample-metadata`''"
  by (simp_all add: msg_no_samples_def msg_no_features_def)

subsection \<open>Duplicate identifiers\<close>

text \<open>C3. A table that repeats a sample id or a feature id makes the matching stage raise
  \<open>ValueError\<close> (the message names the axis) with the table untouched, and so makes
  \<open>ctf_helper\<close> raise with the table untouched whatever the factorization would do: no
  alignment and no filtering has happened. A table whose sample ids and feature ids are
  all distinct never meets either of the two duplicate errors.\<close>

theorem duplicate_ids_rejected:
  "(\<not> distinct (ids table Sample) \<or> \<not> distinct (ids table Observation) \<longrightarrow>
      match_data table matched_metadata matched_features =
        (table, Inl (ValueError (if \<not> distinct (ids table Sample) then msg_dup_samples
                                 else msg_dup_features)))
      \<and> (\<exists>e. \<forall>factorize.
            ctf_helper q2 factorize table sample_metadata individual_id_column state_columns
              n_components min_sample_count min_feature_count max_iterations_als
              max_iterations_rptm n_initializations feature_metadata = (table, Inl e)))
   \<and> (distinct (ids table Sample) \<and> distinct (ids table Observation) \<longrightarrow>
        snd (match_data table matched_metadata matched_features)
          \<noteq> Inl (ValueError msg_dup_samples)
        \<and> snd (match_data table matched_metadata matched_features)
          \<noteq> Inl (ValueError msg_dup_features))"
proof (intro conjI impI)
  assume dup: "\<not> distinct (ids table Sample) \<or> \<not> distinct (ids table Observation)"
  have m: "match_data table smd fmd =
        (table, Inl (ValueError (if \<not> distinct (ids table Sample) then msg_dup_samples
                                 else msg_dup_features)))" for smd fmd
    using dup match_data_dup_samples match_data_dup_features by (cases "distinct (ids table Sample)") auto
  show "match_data table matched_metadata matched_features =
        (table, Inl (ValueError (if \<not> distinct (ids table Sample) then msg_dup_samples
                                 else msg_dup_features)))" by (rule m)
  show "\<exists>e. \<forall>factorize.
            ctf_helper q2 factorize table sample_metadata individual_id_column state_columns
              n_components min_sample_count min_feature_count max_iterations_als
              max_iterations_rptm n_initializations feature_metadata = (table, Inl e)"
    by (rule ctf_helper_match_error [where err = "\<lambda>_ _. ValueError (if \<not> distinct (ids table Sample) then msg_dup_samples
                                 else msg_dup_features)"]) (rule m)
next
  assume d: "distinct (ids table Sample) \<and> distinct (ids table Observation)"
  then show "snd (match_data table matched_metadata matched_features)
          \<noteq> Inl (ValueError msg_dup_samples)"
    using match_data_distinct_passes by blast
  from d show "snd (match_data table matched_metadata matched_features)
          \<noteq> Inl (ValueError msg_dup_features)"
    using match_data_distinct_passes by blast
qed


theorem duplicate_ids_rejected_witness:
  "\<not> distinct (ids ex_dup_table Sample)
   \<and> match_data ex_dup_table ex_sample_metadata None
       = (ex_dup_table, Inl (ValueError msg_dup_samples))
   \<and> (\<exists>e. \<forall>factorize.
          ctf_helper Inr factorize ex_dup_table (DataFrame ex_metadata) ''subject'' [''state'']
            3 0 0 5 5 5 None = (ex_dup_table, Inl e))
   \<and> distinct (ids ex_table Sample) \<and> distinct (ids ex_table Observation)
   \<and> snd (match_data ex_table ex_sample_metadata None) \<noteq> Inl (ValueError msg_dup_samples)
   \<and> snd (match_data ex_table ex_sample_metadata None) \<noteq> Inl (ValueError msg_dup_features)"
proof -
  have d: "\<not> distinct (ids ex_dup_table Sample)"
    by (simp add: ex_dup_table_def ids_def)
  have e: "distinct (ids ex_table Sample) \<and> distinct (ids ex_table Observation)"
    by (simp add: ex_table_def ids_def)
  from d e
    duplicate_ids_rejected [of ex_dup_table ex_sample_metadata None Inr "DataFrame ex_metadata"
      "''subject''" "[''state'']" 3 0 0 5 5 5 None]
    duplicate_ids_rejected [of ex_table ex_sample_metadata None Inr "DataFrame ex_metadata"
      "''subject''" "[''state'']" 3 0 0 5 5 5 None]
  show ?thesis by simp
qed

subsection \<open>Empty intersection of sample ids\<close>

text \<open>C2. When no sample id of the table is in the index of the validated sample metadata,
  \<open>ctf_helper\<close> ends with an exception and leaves the table as it was, and the exception does
  not depend on the factorization: the tensor is never built and nothing is factorized.
  Once the feature metadata are validated the exception is a \<open>ValueError\<close>.
  When the table has no duplicate ids and the feature metadata, if given, shares a feature
  with the table, the exception is the \<open>ValueError\<close> of line 115, whose message names
  \<open>`sample-metadata`\<close>, which the message for the feature metadata does not.\<close>

theorem empty_sample_intersection_fails:
  assumes "validate_sample_metadata q2 sample_metadata individual_id_column state_columns
             = Inr (sample_metadata1, all_sample_metadata)"
      and "set (ids table Sample) \<inter> set (index sample_metadata1) = {}"
  shows "(\<exists>e. \<forall>factorize.
            ctf_helper q2 factorize table sample_metadata individual_id_column state_columns
              n_components min_sample_count min_feature_count max_iterations_als
              max_iterations_rptm n_initializations feature_metadata = (table, Inl e))
       \<and> (validate_feature_metadata q2 feature_metadata = Inr feature_metadata1 \<longrightarrow>
          (\<exists>msg. \<forall>factorize.
            ctf_helper q2 factorize table sample_metadata individual_id_column state_columns
              n_components min_sample_count min_feature_count max_iterations_als
              max_iterations_rptm n_initializations feature_metadata
              = (table, Inl (ValueError msg))))
       \<and> (distinct (ids table Sample) \<and> distinct (ids table Observation)
            \<and> validate_feature_metadata q2 feature_metadata = Inr feature_metadata1
            \<and> (case feature_metadata1 of
                  None \<Rightarrow> True
                | Some f \<Rightarrow> set (ids table Observation) \<inter> set (index f) \<noteq> {}
                            \<and> distinct (index f)) \<longrightarrow>
          (\<forall>factorize.
            ctf_helper q2 factorize table sample_metadata individual_id_column state_columns
              n_components min_sample_count min_feature_count max_iterations_als
              max_iterations_rptm n_initializations feature_metadata
              = (table, Inl (ValueError msg_no_samples))))
       \<and> str_contains msg_no_samples ''`sample-metadata`''
       \<and> \<not> str_contains msg_no_features ''`sample-metadata`''"
proof (intro conjI impI)
  show "\<exists>e. \<forall>factorize.
            ctf_helper q2 factorize table sample_metadata individual_id_column state_columns
              n_components min_sample_count min_feature_count max_iterations_als
              max_iterations_rptm n_initializations feature_metadata = (table, Inl e)"
  proof (cases "validate_feature_metadata q2 feature_metadata")
    case (Inl e)
    with assms(1) show ?thesis by (auto simp: ctf_helper_def)
  next
    case (Inr fmd1)
    from match_data_no_samples [OF assms(2)] obtain msg
      where "match_data table sample_metadata1 fmd1 = (table, Inl (ValueError msg))" by blast
    with ctf_helper_via_match [OF assms(1) Inr] show ?thesis by blast
  qed
next
  assume v: "validate_feature_metadata q2 feature_metadata = Inr feature_metadata1"
  from match_data_no_samples [OF assms(2)] obtain msg
    where "match_data table sample_metadata1 feature_metadata1 = (table, Inl (ValueError msg))"
    by blast
  with ctf_helper_via_match [OF assms(1) v]
  show "\<exists>msg. \<forall>factorize.
            ctf_helper q2 factorize table sample_metadata individual_id_column state_columns
              n_components min_sample_count min_feature_count max_iterations_als
              max_iterations_rptm n_initializations feature_metadata
              = (table, Inl (ValueError msg))" by blast
next
  assume h: "distinct (ids table Sample) \<and> distinct (ids table Observation)
            \<and> validate_feature_metadata q2 feature_metadata = Inr feature_metadata1
            \<and> (case feature_metadata1 of
                  None \<Rightarrow> True
                | Some f \<Rightarrow> set (ids table Observation) \<inter> set (index f) \<noteq> {}
                            \<and> distinct (index f))"
  then have "match_data table sample_metadata1 feature_metadata1
               = (table, Inl (ValueError msg_no_samples))"
    using match_data_no_samples_msg [OF assms(2)] by blast
  with ctf_helper_via_match [OF assms(1)] h
  show "\<forall>factorize.
            ctf_helper q2 factorize table sample_metadata individual_id_column state_columns
              n_components min_sample_count min_feature_count max_iterations_als
              max_iterations_rptm n_initializations feature_metadata
              = (table, Inl (ValueError msg_no_samples))" by blast
qed (rule msg_no_samples_names)+

theorem empty_sample_intersection_fails_witness:
  "validate_sample_metadata Inr (DataFrame ex_metadata) ''subject'' [''state'']
     = Inr (ex_sample_metadata,
            ex_metadata\<lparr>columns := [columns ex_metadata ! 4, columns ex_metadata ! 5]\<rparr>)
   \<and> set (ids ex_other_table Sample) \<inter> set (index ex_sample_metadata) = {}
   \<and> (\<forall>factorize.
         ctf_helper Inr factorize ex_other_table (DataFrame ex_metadata) ''subject'' [''state'']
           3 0 0 5 5 5 None = (ex_other_table, Inl (ValueError msg_no_samples)))"
proof -
  have v: "validate_sample_metadata Inr (DataFrame ex_metadata) ''subject'' [''state'']
     = Inr (ex_sample_metadata,
            ex_metadata\<lparr>columns := [columns ex_metadata ! 4, columns ex_metadata ! 5]\<rparr>)"
    using ex_validate_DataFrame by (simp add: ex_sample_metadata_def)
  have i: "set (ids ex_other_table Sample) \<inter> set (index ex_sample_metadata) = {}"
    by (simp add: ex_other_table_def ids_def ex_sample_metadata_def ex_metadata_def)
  have d: "distinct (ids ex_other_table Sample) \<and> distinct (ids ex_other_table Observation)"
    by (simp add: ex_other_table_def ids_def)
  have f: "validate_feature_metadata Inr None = Inr None"
    by (simp add: validate_feature_metadata_def)
  from empty_sample_intersection_fails [OF v i, of 3 0 0 5 5 5 None None] d f v i
  show ?thesis by simp
qed

subsection \<open>Auxiliary lemmas on filtering the table\<close>





lemma ids_table_filter_other [simp]:
  "ids (table_filter ys Observation t) Sample = ids t Sample"
  "ids (table_filter ys Sample t) Observation = ids t Observation"
  by (simp_all add: table_filter_def ids_def Let_def)







lemma select_mask_Nil [simp]: "select_mask [] xs = []" "select_mask bs [] = []"
  by (simp_all add: select_mask_def)













subsection \<open>The table is filtered in place\<close>







lemma index_reindex: "reindex l f = Inr g \<Longrightarrow> index g = l"
  by (auto simp: reindex_def split: if_splits)



subsection \<open>Alignment and filtering on aligned input\<close>









subsection \<open>The driver as the composition of its stages\<close>

text \<open>A successful call of \<open>ctf_helper\<close> is a successful run of each stage on the output of
  the stage before: the ordination results are those of \<open>make_ordination\<close> on the fitted
  factorization after \<open>add_PC3\<close>, the three dictionaries are those of \<open>condition_loop\<close>
  on the matched sample metadata, the auxiliary metadata and the fitted factorization. The
  statements on these stages below are statements on the outputs of \<open>ctf_helper\<close>.\<close>

lemma add_PC3_trajectories:
  "subject_distances (add_PC3 n TF) = subject_distances TF"
  "subject_trajectory (add_PC3 n TF) = subject_trajectory TF"
  "feature_trajectory (add_PC3 n TF) = feature_trajectory TF"
  by (simp_all add: add_PC3_def)

lemma ctf_helper_success:
  assumes "ctf_helper q2 factorize table sample_metadata individual_id_column state_columns
             n_components min_sample_count min_feature_count max_iterations_als
             max_iterations_rptm n_initializations feature_metadata
           = (table2, Inr (ordination, out))"
  shows "\<exists>sample_metadata1 all_sample_metadata feature_metadata1 sample_metadata2
            feature_metadata2 conditions TF0.
           validate_sample_metadata q2 sample_metadata individual_id_column state_columns
             = Inr (sample_metadata1, all_sample_metadata)
         \<and> validate_feature_metadata q2 feature_metadata = Inr feature_metadata1
         \<and> align_and_filter table sample_metadata1 feature_metadata1
               min_sample_count min_feature_count
             = (table2, Inr (sample_metadata2, feature_metadata2))
         \<and> factorize (table_to_dataframe table2) sample_metadata2 individual_id_column
               state_columns n_components max_iterations_als max_iterations_rptm
               n_initializations feature_metadata2
             = Inr (conditions, TF0)
         \<and> make_ordination (add_PC3 n_components TF0) = Inr ordination
         \<and> condition_loop sample_metadata2 all_sample_metadata
               (zip conditions (zip (subject_distances TF0)
                  (zip (subject_trajectory TF0) (feature_trajectory TF0)))) ([], [], [])
             = Inr out"
  using assms
  by (auto simp: ctf_helper_def Let_def add_PC3_trajectories split: sum.splits prod.splits)

text \<open>A run of the whole driver on the example inputs.\<close>

lemma ex_ctf_helper:
  "ctf_helper Inr ex_factorize ex_table (DataFrame ex_metadata) ''subject'' [''state'']
     2 0 0 5 5 5 None
   = (ex_aligned_table,
      Inr (ex_ordination3,
           [(''state'', ex_dm)], [(''state'', ex_straj)], [(''state'', ex_ftraj)]))"
  by code_simp

subsection \<open>Auxiliary lemmas on the loading tables\<close>



subsection \<open>The third axis for two components\<close>

text \<open>The axes of a loading table are its columns; the axes of the eigenvalue and
  proportion-explained vectors are their index labels.\<close>




lemma getitem_columns_Inr:
  "getitem_columns labels f = Inr g \<Longrightarrow>
     g = f\<lparr>columns := concat (map (\<lambda>l. filter (\<lambda>c. col_name c = l) (columns f)) labels)\<rparr>"
  by (auto simp: getitem_columns_def split: list.splits)

lemma getitem_columns_names:
  "getitem_columns labels f = Inr g \<Longrightarrow> set (column_names g) \<subseteq> set labels"
  by (auto simp: column_names_def dest!: getitem_columns_Inr)

lemma getitem_columns_ok:
  "set labels \<subseteq> set (column_names f) \<Longrightarrow> \<exists>g. getitem_columns labels f = Inr g"
proof -
  assume "set labels \<subseteq> set (column_names f)"
  then have "filter (\<lambda>l. l \<notin> set (column_names f)) labels = []"
    by (auto simp: filter_empty_conv)
  then show ?thesis by (simp add: getitem_columns_def)
qed

lemma select_mask_nth:
  "x \<in> set (select_mask bs xs) \<Longrightarrow> \<exists>i. i < length xs \<and> i < length bs \<and> bs ! i \<and> xs ! i = x"
  unfolding select_mask_def
  by (auto simp: in_set_conv_nth)

lemma dropna_no_missing:
  assumes "c \<in> set (columns (dropna f))"
  shows "NaN \<notin> set (col_values c)"
proof
  assume n: "NaN \<in> set (col_values c)"
  from assms obtain c0 where c0: "c0 \<in> set (columns f)"
    "col_values c = select_mask (map (\<lambda>i. \<not> row_isna (columns f) i) [0..<length (index f)]) (col_values c0)"
    by (auto simp: dropna_def loc_rows_def)
  let ?bs = "map (\<lambda>i. \<not> row_isna (columns f) i) [0..<length (index f)]"
  from n c0(2) have "NaN \<in> set (select_mask ?bs (col_values c0))" by simp
  from select_mask_nth [OF this]
  obtain i where i: "i < length (col_values c0)" "i < length (index f)"
     "\<not> row_isna (columns f) i" "col_values c0 ! i = NaN"
    by auto
  with c0(1) show False by (auto simp: row_isna_def list_ex_iff)
qed

lemma column_names_dropna [simp]: "column_names (dropna f) = column_names f"
  by (simp add: dropna_def loc_rows_def column_names_def comp_def)

lemma select_mask_map_map: "select_mask (map P ys) (map f ys) = map f (filter P ys)"
  unfolding select_mask_def by (induction ys) auto

lemma select_mask_upt:
  "select_mask (map P [0..<length xs]) xs = map (\<lambda>i. xs ! i) (filter P [0..<length xs])"
  using select_mask_map_map [of P "[0..<length xs]" "\<lambda>i. xs ! i"] by (simp add: map_nth)

lemma index_dropna:
  "index (dropna f)
     = map (\<lambda>i. index f ! i) (filter (\<lambda>i. \<not> row_isna (columns f) i) [0..<length (index f)])"
  by (simp add: dropna_def loc_rows_def select_mask_upt)

subsection \<open>The ordination results\<close>

text \<open>C5 (amended). The ordination results hold the eigenvalues and the proportion explained
  of the factorization as they are, and the subject and feature loading tables restricted
  to the columns whose name contains \<open>PC\<close> (the names are read off the feature table),
  each table with exactly its own rows that hold a missing value dropped. Duplicate rows
  are kept.\<close>

theorem ordination_package:
  assumes "make_ordination TF = Inr ordination"
  shows "ord_eigvals ordination = eigvals TF
       \<and> ord_proportion_explained ordination = proportion_explained TF
       \<and> (\<exists>subjects_PC features_PC.
            getitem_columns (filter (\<lambda>col. str_contains col ''PC'') (column_names (features TF)))
                (subjects TF) = Inr subjects_PC
          \<and> getitem_columns (filter (\<lambda>col. str_contains col ''PC'') (column_names (features TF)))
                (features TF) = Inr features_PC
          \<and> ord_samples ordination = dropna subjects_PC
          \<and> ord_features ordination = dropna features_PC
          \<and> index (ord_samples ordination)
              = map (\<lambda>i. index (subjects TF) ! i)
                    (filter (\<lambda>i. \<not> row_isna (columns subjects_PC) i)
                            [0..<length (index (subjects TF))])
          \<and> index (ord_features ordination)
              = map (\<lambda>i. index (features TF) ! i)
                    (filter (\<lambda>i. \<not> row_isna (columns features_PC) i)
                            [0..<length (index (features TF))]))
       \<and> list_all (\<lambda>col. str_contains col ''PC'') (column_names (ord_samples ordination))
       \<and> list_all (\<lambda>col. str_contains col ''PC'') (column_names (ord_features ordination))
       \<and> list_all (\<lambda>c. NaN \<notin> set (col_values c)) (columns (ord_samples ordination))
       \<and> list_all (\<lambda>c. NaN \<notin> set (col_values c)) (columns (ord_features ordination))"
proof -
  let ?keep = "filter (\<lambda>col. str_contains col ''PC'') (column_names (features TF))"
  from assms obtain s f where sf:
    "getitem_columns ?keep (subjects TF) = Inr s" "getitem_columns ?keep (features TF) = Inr f"
    "ordination = \<lparr>short_method_name = ''CTF_Biplot'',
                      long_method_name = ''Compositional Tensor Factorization Biplot'',
                      ord_eigvals = eigvals TF,
                      ord_samples = dropna s,
                      ord_features = dropna f,
                      ord_proportion_explained = proportion_explained TF\<rparr>"
    by (auto simp: make_ordination_def Let_def split: sum.splits)
  have "list_all (\<lambda>col. str_contains col ''PC'') (column_names s)"
       "list_all (\<lambda>col. str_contains col ''PC'') (column_names f)"
    using getitem_columns_names [OF sf(1)] getitem_columns_names [OF sf(2)]
    by (auto simp: list_all_iff)
  moreover have "index s = index (subjects TF)" "index f = index (features TF)"
    using getitem_columns_Inr [OF sf(1)] getitem_columns_Inr [OF sf(2)] by simp_all
  ultimately show ?thesis
    using sf dropna_no_missing index_dropna [of s] index_dropna [of f]
    by (auto simp: list_all_iff)
qed


lemma ex_make_ordination: "make_ordination ex_TF = Inr ex_ordination"
  by (simp add: make_ordination_def ex_TF_def ex_ordination_def getitem_columns_def
      column_names_def dropna_def loc_rows_def row_isna_def select_mask_def upt_rec Let_def)

theorem ordination_package_witness:
  "make_ordination ex_TF = Inr ex_ordination
   \<and> ord_eigvals ex_ordination = eigvals ex_TF
   \<and> ord_proportion_explained ex_ordination = proportion_explained ex_TF
   \<and> list_all (\<lambda>col. str_contains col ''PC'') (column_names (ord_samples ex_ordination))
   \<and> list_all (\<lambda>col. str_contains col ''PC'') (column_names (ord_features ex_ordination))
   \<and> list_all (\<lambda>c. NaN \<notin> set (col_values c)) (columns (ord_samples ex_ordination))
   \<and> list_all (\<lambda>c. NaN \<notin> set (col_values c)) (columns (ord_features ex_ordination))
   \<and> index (ord_features ex_ordination) = [''f1'']"
  using ordination_package [OF ex_make_ordination] ex_make_ordination
  by (simp add: ex_ordination_def)

text \<open>C5 as stated fails: the subject loadings of \<open>ex_TF\<close> have two equal rows, and both
  are in the ordination results.\<close>

theorem ordination_keeps_duplicate_rows:
  "make_ordination ex_TF = Inr ex_ordination
   \<and> frame_rows (ord_samples ex_ordination)
       = [[NumV (1/2), NumV (1/4)], [NumV (1/2), NumV (1/4)]]
   \<and> \<not> distinct (frame_rows (ord_samples ex_ordination))
   \<and> index (drop_duplicates (ord_samples ex_ordination)) = [''a'']
   \<and> ord_samples ex_ordination \<noteq> drop_duplicates (ord_samples ex_ordination)"
proof -
  have r: "frame_rows (ord_samples ex_ordination)
       = [[NumV (1/2), NumV (1/4)], [NumV (1/2), NumV (1/4)]]"
    by (simp add: ex_ordination_def ex_TF_def frame_rows_def upt_rec)
  have i: "index (ord_samples ex_ordination) = [''a'', ''b'']"
    by (simp add: ex_ordination_def ex_TF_def)
  have d: "index (drop_duplicates (ord_samples ex_ordination)) = [''a'']"
    by (simp add: drop_duplicates_def r i loc_rows_def select_mask_def upt_rec)
  from d i have "ord_samples ex_ordination \<noteq> drop_duplicates (ord_samples ex_ordination)"
    by auto
  with r d ex_make_ordination show ?thesis by simp
qed

subsection \<open>Auxiliary lemmas on the loop over the conditions\<close>

lemma map_of_dict_setitem: "map_of (dict_setitem k v d) = (map_of d)(k \<mapsto> v)"
  by (induction d) (auto simp: fun_eq_iff)

lemma condition_loop_preserves:
  "condition_loop smd all_md items (D0, S0, F0) = Inr (D, S, F) \<Longrightarrow> c \<notin> fst ` set items \<Longrightarrow>
     map_of D c = map_of D0 c \<and> map_of S c = map_of S0 c \<and> map_of F c = map_of F0 c"
proof (induction items arbitrary: D0 S0 F0)
  case Nil
  then show ?case by simp
next
  case (Cons item items)
  obtain c' dist_arr straj ftraj where item: "item = (c', dist_arr, straj, ftraj)"
    by (cases item) auto
  from Cons.prems(1) item obtain dm st where
    dm: "match_distances dist_arr (index straj) (index smd) = Inr dm"
    and st: "merge_trajectory straj all_md = Inr st"
    and rest: "condition_loop smd all_md items
                 (dict_setitem c' dm D0, dict_setitem c' st S0,
                  dict_setitem c' (index_astype_str ftraj) F0) = Inr (D, S, F)"
    by (auto split: sum.splits)
  from Cons.prems(2) item have ne: "c \<noteq> c'" "c \<notin> fst ` set items" by auto
  from Cons.IH [OF rest ne(2)] ne(1) show ?case
    by (simp add: map_of_dict_setitem)
qed

lemma condition_loop_lookup:
  "condition_loop smd all_md items (D0, S0, F0) = Inr (D, S, F) \<Longrightarrow>
   distinct (map fst items) \<Longrightarrow> (c, dist_arr, straj, ftraj) \<in> set items \<Longrightarrow>
     \<exists>dm st. match_distances dist_arr (index straj) (index smd) = Inr dm
            \<and> merge_trajectory straj all_md = Inr st
            \<and> map_of D c = Some dm \<and> map_of S c = Some st
            \<and> map_of F c = Some (index_astype_str ftraj)"
proof (induction items arbitrary: D0 S0 F0)
  case Nil
  then show ?case by simp
next
  case (Cons item items)
  obtain c' dist_arr' straj' ftraj' where item: "item = (c', dist_arr', straj', ftraj')"
    by (cases item) auto
  from Cons.prems(1) item obtain dm st where
    dm: "match_distances dist_arr' (index straj') (index smd) = Inr dm"
    and st: "merge_trajectory straj' all_md = Inr st"
    and rest: "condition_loop smd all_md items
                 (dict_setitem c' dm D0, dict_setitem c' st S0,
                  dict_setitem c' (index_astype_str ftraj') F0) = Inr (D, S, F)"
    by (auto split: sum.splits)
  from Cons.prems(2) item have d: "c' \<notin> fst ` set items" "distinct (map fst items)" by auto
  show ?case
  proof (cases "(c, dist_arr, straj, ftraj) = item")
    case True
    with item have eq: "c = c'" "dist_arr = dist_arr'" "straj = straj'" "ftraj = ftraj'" by auto
    from condition_loop_preserves [OF rest d(1)] dm st eq show ?thesis
      by (simp add: map_of_dict_setitem)
  next
    case False
    with Cons.prems(3) have "(c, dist_arr, straj, ftraj) \<in> set items" by auto
    from Cons.IH [OF rest d(2) this] show ?thesis .
  qed
qed



lemma fold_enumerate_dict:
  "distinct xs \<Longrightarrow>
     fold (\<lambda>(ind_i, ind) d. d(ind \<mapsto> ind_i)) (enumerate n xs) m
       = m ++ map_of (zip xs [n..<n + length xs])"
proof (induction xs arbitrary: n m)
  case Nil
  then show ?case by simp
next
  case (Cons x xs)
  let ?M = "map_of (zip xs [Suc n..<Suc n + length xs])"
  have u: "[n..<n + length (x # xs)] = n # [Suc n..<Suc n + length xs]"
    using upt_conv_Cons [of n "n + length (x # xs)"] by (simp del: upt_Suc)
  have nd: "x \<notin> dom ?M"
    using Cons.prems by (auto dest: set_zip_leftD simp: dom_map_of_conv_image_fst)
  have "fold (\<lambda>(ind_i, ind) d. d(ind \<mapsto> ind_i)) (enumerate n (x # xs)) m
          = fold (\<lambda>(ind_i, ind) d. d(ind \<mapsto> ind_i)) (enumerate (Suc n) xs) (m(x \<mapsto> n))"
    by simp
  also have "\<dots> = m(x \<mapsto> n) ++ ?M"
    using Cons.prems by (intro Cons.IH) simp
  also have "\<dots> = (m ++ ?M)(x \<mapsto> n)"
    using nd by (rule map_add_upd_left)
  also have "\<dots> = m ++ (?M(x \<mapsto> n))"
    by simp
  also have "\<dots> = m ++ map_of (zip (x # xs) [n..<n + length (x # xs)])"
    unfolding u by simp
  finally show ?case .
qed

lemma enumerate_dict_nth:
  assumes "distinct xs" "i < length xs"
  shows "enumerate_dict xs (xs ! i) = Some i"
proof -
  have "enumerate_dict xs = map_of (zip xs [0..<length xs])"
    using fold_enumerate_dict [OF assms(1), of 0 Map.empty] by (simp add: enumerate_dict_def)
  moreover have "map_of (zip xs [0..<length xs]) (xs ! i) = Some ([0..<length xs] ! i)"
    using assms by (intro map_of_zip_nth) simp_all
  ultimately show ?thesis using assms(2) by simp
qed

lemma map_filter_Some:
  "(\<And>x. x \<in> set xs \<Longrightarrow> f x = Some (g x)) \<Longrightarrow> List.map_filter f xs = map g xs"
  by (induction xs) (simp_all add: List.map_filter_simps)

lemma filter_as_positions:
  "filter P xs = map (\<lambda>i. xs ! i) (filter (\<lambda>i. P (xs ! i)) [0..<length xs])"
proof -
  have "filter P (map (\<lambda>i. xs ! i) [0..<length xs])
          = map (\<lambda>i. xs ! i) (filter (P \<circ> (\<lambda>i. xs ! i)) [0..<length xs])"
    by (rule filter_map)
  then show ?thesis by (simp add: map_nth comp_def)
qed

lemma match_indices_distinct:
  assumes "distinct straj_index"
  shows "match_indices straj_index md_index
           = filter (\<lambda>i. straj_index ! i \<in> set md_index) [0..<length straj_index]"
proof -
  let ?J = "filter (\<lambda>i. straj_index ! i \<in> set md_index) [0..<length straj_index]"
  have inter: "intersection (pyset straj_index) md_index = map (\<lambda>i. straj_index ! i) ?J"
    using assms filter_as_positions [of "\<lambda>x. x \<in> set md_index" straj_index]
    by (simp add: intersection_def pyset_def distinct_remdups_id)
  have "List.map_filter (enumerate_dict straj_index) (map (\<lambda>i. straj_index ! i) ?J)
          = map (\<lambda>x. the (enumerate_dict straj_index x)) (map (\<lambda>i. straj_index ! i) ?J)"
    by (rule map_filter_Some) (auto simp: enumerate_dict_nth [OF assms])
  also have "\<dots> = map (\<lambda>i. i) ?J"
    unfolding map_map by (rule map_cong) (auto simp: enumerate_dict_nth [OF assms])
  finally have mf: "List.map_filter (enumerate_dict straj_index) (map (\<lambda>i. straj_index ! i) ?J) = ?J"
    by simp
  have "sorted ?J" by (rule sorted_wrt_filter) simp
  then have "sort ?J = ?J" by (rule sorted_sort_id)
  with inter mf show ?thesis by (simp add: match_indices_def Let_def)
qed

lemma take_indices_Inr: "take_indices J xs = Inr ys \<Longrightarrow> ys = map (\<lambda>i. xs ! i) J"
  by (auto simp: take_indices_def split: if_splits)

lemma sequence_take_indices_Inr:
  "sequence (map (take_indices J) rows) = Inr d \<Longrightarrow> d = map (\<lambda>row. map (\<lambda>j. row ! j) J) rows"
proof (induction rows arbitrary: d)
  case Nil
  then show ?case by simp
next
  case (Cons r rows)
  then show ?case
    by (cases "take_indices J r") (auto dest: take_indices_Inr split: sum.splits)
qed

lemma DistanceMatrix_Inr:
  "DistanceMatrix d dids = Inr dm \<Longrightarrow> dm = \<lparr>dm_data = d, dm_ids = dids\<rparr>"
  by (auto simp: DistanceMatrix_def split: if_splits)

lemma match_distances_Inr:
  assumes "match_distances dist_arr straj_index md_index = Inr dm" "distinct straj_index"
  shows "dm_ids dm = filter (\<lambda>i. i \<in> set md_index) straj_index"
    and "dm_data dm =
           map (\<lambda>i. map (\<lambda>j. dist_arr ! i ! j)
                         (filter (\<lambda>i. straj_index ! i \<in> set md_index) [0..<length straj_index]))
               (filter (\<lambda>i. straj_index ! i \<in> set md_index) [0..<length straj_index])"
proof -
  let ?J = "filter (\<lambda>i. straj_index ! i \<in> set md_index) [0..<length straj_index]"
  have J: "match_indices straj_index md_index = ?J"
    by (rule match_indices_distinct [OF assms(2)])
  from assms(1) obtain rows d1 ids1 where
    r: "take_indices ?J dist_arr = Inr rows"
    and d: "sequence (map (take_indices ?J) rows) = Inr d1"
    and i: "take_indices ?J straj_index = Inr ids1"
    and m: "DistanceMatrix d1 ids1 = Inr dm"
    by (auto simp: match_distances_def Let_def J split: sum.splits)
  from take_indices_Inr [OF i] have "ids1 = filter (\<lambda>i. i \<in> set md_index) straj_index"
    using filter_as_positions [of "\<lambda>x. x \<in> set md_index" straj_index] by simp
  with DistanceMatrix_Inr [OF m] show "dm_ids dm = filter (\<lambda>i. i \<in> set md_index) straj_index"
    by simp
  from take_indices_Inr [OF r] sequence_take_indices_Inr [OF d] DistanceMatrix_Inr [OF m]
  show "dm_data dm = map (\<lambda>i. map (\<lambda>j. dist_arr ! i ! j) ?J) ?J"
    by (simp add: comp_def)
qed



lemma reindex_Inr_cases:
  "reindex l f = Inr g \<Longrightarrow>
     (index f = l \<and> g = f) \<or>
     (distinct (index f) \<and>
      g = f\<lparr>index := l, columns := map (reindex_column (index f) l) (columns f)\<rparr>)"
  by (auto simp: reindex_def split: if_splits)

lemma merge_trajectory_distinct:
  assumes "merge_trajectory straj all_md = Inr t"
  shows "distinct (index straj)" "distinct (index all_md)"
proof -
  let ?A = "index all_md"
  let ?new = "sort (pyset (?A @ ?A))"
  from assms obtain straj1 a1 where
    1: "reindex ?A straj = Inr straj1" and 2: "reindex (sort (pyset (index straj1 @ ?A))) straj1 = Inr a1"
    by (auto simp: merge_trajectory_def concat_axis1_sorted_def Let_def split: sum.splits)
  have i1: "index straj1 = ?A" by (rule index_reindex [OF 1])
  have dn: "distinct ?new" by (simp add: pyset_def)
  from reindex_Inr_cases [OF 2] i1 have "?A = ?new \<or> distinct ?A" by auto
  with dn show dA: "distinct ?A" by metis
  from reindex_Inr_cases [OF 1] dA show "distinct (index straj)" by auto
qed

lemma ex_condition_loop:
  "condition_loop ex_sample_metadata ex_aux_metadata ex_items ([], [], [])
     = Inr ([(''state'', ex_dm)], [(''state'', ex_straj)], [(''state'', ex_ftraj)])"
  by code_simp

subsection \<open>The distance matrix of a condition\<close>

text \<open>C4 (amended). When the loop over the conditions succeeds, the distance matrix stored for
  a condition is the fitted distance matrix of that condition restricted to the rows and
  columns of exactly the ids that are both in the index of the condition's subject
  trajectory and in the index of the retained sample metadata; the ids and the rows and
  columns come in the order in which the ids stand in the index of the trajectory table
  (which is ascending id order only if that index is itself ascending).\<close>

theorem distances_follow_trajectory_order:
  assumes "condition_loop sample_metadata all_sample_metadata items ([], [], [])
             = Inr (distances, subject_trajectories, feature_trajectories)"
      and "distinct (map fst items)"
      and "(condition, dist_arr, straj, ftraj) \<in> set items"
  shows "\<exists>dm. map_of distances condition = Some dm
            \<and> dm_ids dm = filter (\<lambda>i. i \<in> set (index sample_metadata)) (index straj)
            \<and> set (dm_ids dm) = set (index straj) \<inter> set (index sample_metadata)
            \<and> dm_data dm =
                map (\<lambda>i. map (\<lambda>j. dist_arr ! i ! j)
                        (filter (\<lambda>i. index straj ! i \<in> set (index sample_metadata))
                                [0..<length (index straj)]))
                    (filter (\<lambda>i. index straj ! i \<in> set (index sample_metadata))
                            [0..<length (index straj)])"
proof -
  from condition_loop_lookup [OF assms] obtain dm st where
    dm: "match_distances dist_arr (index straj) (index sample_metadata) = Inr dm"
    and st: "merge_trajectory straj all_sample_metadata = Inr st"
    and D: "map_of distances condition = Some dm"
    by blast
  have d: "distinct (index straj)" by (rule merge_trajectory_distinct(1) [OF st])
  from match_distances_Inr [OF dm d] D show ?thesis by auto
qed

theorem distances_follow_trajectory_order_witness:
  "condition_loop ex_sample_metadata ex_aux_metadata ex_items ([], [], [])
     = Inr ([(''state'', ex_dm)], [(''state'', ex_straj)], [(''state'', ex_ftraj)])
   \<and> (\<exists>dm. map_of [(''state'', ex_dm)] ''state'' = Some dm
          \<and> dm_ids dm = filter (\<lambda>i. i \<in> set (index ex_sample_metadata))
                                (index (subject_trajectory ex_TF ! 0))
          \<and> dm_data dm =
                map (\<lambda>i. map (\<lambda>j. (subject_distances ex_TF ! 0) ! i ! j)
                        (filter (\<lambda>i. index (subject_trajectory ex_TF ! 0) ! i \<in> set (index ex_sample_metadata))
                                [0..<length (index (subject_trajectory ex_TF ! 0))]))
                    (filter (\<lambda>i. index (subject_trajectory ex_TF ! 0) ! i \<in> set (index ex_sample_metadata))
                            [0..<length (index (subject_trajectory ex_TF ! 0))]))"
proof -
  have m: "(''state'', subject_distances ex_TF ! 0, subject_trajectory ex_TF ! 0,
            feature_trajectory ex_TF ! 0) \<in> set ex_items"
    by (simp add: ex_items_def ex_TF_def)
  have d: "distinct (map fst ex_items)"
    by (simp add: ex_items_def ex_TF_def)
  from distances_follow_trajectory_order [OF ex_condition_loop d m] ex_condition_loop
  show ?thesis by blast
qed

text \<open>C4 as stated fails: the trajectory of \<open>ex_TF\<close> lists \<open>s2\<close> before \<open>s1\<close>, and so does
  the distance matrix.\<close>

theorem distances_not_in_ascending_id_order:
  "condition_loop ex_sample_metadata ex_aux_metadata ex_items ([], [], [])
     = Inr ([(''state'', ex_dm)], [(''state'', ex_straj)], [(''state'', ex_ftraj)])
   \<and> dm_ids ex_dm = [''s2'', ''s1'']
   \<and> \<not> sorted (dm_ids ex_dm)"
proof -
  have "\<not> sorted [''s2'', ''s1'']" by code_simp
  with ex_condition_loop show ?thesis by (simp add: ex_dm_def)
qed


subsection \<open>Auxiliary lemmas on reindexing and merging frames\<close>





















subsection \<open>The trajectory tables of a condition\<close>




subsection \<open>The command \<^verbatim>\<open>phylogenetic-rclr\<close>\<close>

lemma click_params_keys:
  "click_params opts argv = Inr kwargs \<Longrightarrow> map fst kwargs = map option_keyword opts"
proof -
  assume h: "click_params opts argv = Inr kwargs"
  then have all: "\<forall>opt \<in> set opts. opt \<in> set (map fst argv)"
    and k: "kwargs = List.map_filter
                     (\<lambda>opt. map_option (\<lambda>v. (option_keyword opt, PyStr v)) (map_of (rev argv) opt))
                     opts"
    by (auto simp: click_params_def filter_empty_conv split: list.splits)
  have "\<exists>v. map_of (rev argv) opt = Some v" if "opt \<in> set opts" for opt
  proof -
    from that all have "opt \<in> fst ` set (rev argv)" by auto
    then show ?thesis by (metis map_of_eq_None_iff not_Some_eq)
  qed
  then have "List.map_filter
                     (\<lambda>opt. map_option (\<lambda>v. (option_keyword opt, PyStr v)) (map_of (rev argv) opt))
                     opts
            = map (\<lambda>opt. (option_keyword opt, PyStr (the (map_of (rev argv) opt)))) opts"
    by (intro map_filter_Some) auto
  with k show ?thesis by (simp add: comp_def)
qed

lemma phylogenetic_rclr_command_always_fails:
  "\<exists>e. phylogenetic_rclr_command phylogenetic_rclr_transformation fs argv = (fs, Inl e)"
proof (cases "click_params [''--in-biom'', ''--in-phylogeny'', ''--output-dir''] argv")
  case (Inl e)
  then show ?thesis by (simp add: phylogenetic_rclr_command_def)
next
  case (Inr kwargs)
  from click_params_keys [OF Inr]
  have "map fst kwargs = [''in_biom'', ''in_phylogeny'', ''output_dir'']"
    by (simp add: option_keyword_def)
  then obtain a b c where "kwargs = [(''in_biom'', a), (''in_phylogeny'', b), (''output_dir'', c)]"
    by (auto simp: map_eq_Cons_conv)
  then have "call_with_keywords [''in_biom'', ''in_tree'', ''output_dir''] kwargs
          = Inl (TypeError (''got an unexpected keyword argument '' @ ''in_phylogeny''))"
    by (simp add: call_with_keywords_def)
  with Inr show ?thesis by (simp add: phylogenetic_rclr_command_def)
qed


text \<open>C8. The claim does not hold of the code: whatever the command line, the command
  \<^verbatim>\<open>phylogenetic-rclr\<close> ends in an exception and leaves the file system as it was. With
  the three options given, click calls the function with the keyword \<open>in_phylogeny\<close>, and
  the function has the parameter \<open>in_tree\<close> instead. The command \<^verbatim>\<open>rclr\<close>, whose
  parameters are named after its options, reads its table and writes its artifact.\<close>

theorem phylogenetic_rclr_command_fails:
  "phylogenetic_rclr_command phylogenetic_rclr_transformation ex_fs
     [(''--in-biom'', ''table.biom''), (''--in-phylogeny'', ''tree.nwk''), (''--output-dir'', ''out'')]
     = (ex_fs, Inl (TypeError ''got an unexpected keyword argument in_phylogeny''))"
  by (simp add: phylogenetic_rclr_command_def click_params_def call_with_keywords_def
      option_keyword_def List.map_filter_simps)

lemma phylogenetic_rclr_body_str_fails:
  "\<exists>e. standalone_phylogenetic_rclr phylogenetic_rclr_transformation fs
          (PyStr in_biom) (PyStr in_tree) (PyStr output_dir) = (fs, Inl e)"
  by (simp add: standalone_phylogenetic_rclr_def split: sum.splits)

lemma rclr_command_succeeds:
  "rclr_command Inr ex_fs [(''--in-biom'', ''table.biom''), (''--output-dir'', ''out'')]
     = (ex_fs(''out/rclr-table.biom'' \<mapsto> BiomFile ex_table), Inr ())"
  by (simp add: rclr_command_def click_params_def call_with_keywords_def option_keyword_def
      List.map_filter_simps standalone_rclr_def load_table_def ex_fs_def path_join_def)

end
